theory Spec2Isabelle
  imports Main "HOL-Library.Sublist" "HOL-Library.Char_ord" "HOL-Library.List_Lexorder"
begin

section \<open>Byte strings and the library calls the two programs make\<close>

text \<open>
  A Go string is a sequence of bytes; it is modelled as a \<open>string\<close> (a list of 8-bit
  characters). The functions of this section stand for the calls into Go's standard
  library (\<open>strings\<close>, \<open>fmt\<close>, \<open>path/filepath\<close>) that the handlers make.
\<close>

definition nl :: char where
  "nl = CHR 0x0A"

definition quoted :: "string \<Rightarrow> string" where
  \<comment> \<open>the pattern \<open>'%s'\<close> of the messages\<close>
  "quoted s = CHR 0x27 # s @ [CHR 0x27]"

subsection \<open>Name validation\<close>

text \<open>
  \<open>isValidName\<close> first tests \<open>len(name)\<close>, the number of bytes, then ranges over the
  runes of the name. A rune decoded from a byte below 0x80 is that byte; every rune decoded
  at a byte from 0x80 on is either a code point from 0x80 on or the replacement rune
  U+FFFD, neither of which lies in one of the accepted ranges. So the loop accepts exactly
  when every byte is accepted, and it is written over the bytes.
\<close>

definition validChar :: "char \<Rightarrow> bool" where
  "validChar ch \<longleftrightarrow>
     (CHR ''a'' \<le> ch \<and> ch \<le> CHR ''z'') \<or>
     (CHR ''A'' \<le> ch \<and> ch \<le> CHR ''Z'') \<or>
     (CHR ''0'' \<le> ch \<and> ch \<le> CHR ''9'') \<or>
     ch = CHR ''-'' \<or> ch = CHR ''_''"

fun validLoop :: "string \<Rightarrow> bool" where
  "validLoop [] = True"
| "validLoop (ch # rest) = (if \<not> validChar ch then False else validLoop rest)"

definition isValidName :: "string \<Rightarrow> bool" where
  "isValidName name =
     (if length name = 0 \<or> length name > 255 then False else validLoop name)"

subsection \<open>Splitting and joining\<close>

text \<open>\<open>strings.Split(s, sep)\<close> for a separator of one byte: the pieces between the
  separators, so never an empty list (\<open>Split "" = [""]\<close>).\<close>

fun Split :: "string \<Rightarrow> char \<Rightarrow> string list" where
  "Split [] sep = [[]]"
| "Split (c # cs) sep =
     (if c = sep then [] # Split cs sep
      else (case Split cs sep of
              [] \<Rightarrow> [[c]]
            | piece # pieces \<Rightarrow> (c # piece) # pieces))"

text \<open>\<open>strings.Join(elems, "/")\<close>.\<close>

fun joinSlash :: "string list \<Rightarrow> string" where
  "joinSlash [] = []"
| "joinSlash [e] = e"
| "joinSlash (e # es) = e @ CHR ''/'' # joinSlash es"

subsection \<open>Paths\<close>

text \<open>
  \<open>filepath.Clean\<close> on a system whose separator is the slash and that has no volume
  names. Go scans the path once, keeping the output buffer and the index \<open>dotdot\<close> below
  which a \<open>..\<close> may not remove anything; here the buffer is the list of the elements written
  so far. An empty element and \<open>.\<close> are skipped; \<open>..\<close> removes the last element unless that
  is itself a \<open>..\<close> (or there is none), in which case it is dropped in a rooted path and
  appended otherwise.
\<close>

definition cleanStep :: "bool \<Rightarrow> string list \<Rightarrow> string \<Rightarrow> string list" where
  "cleanStep rooted out e =
     (if e = [] \<or> e = ''.'' then out
      else if e = ''..'' then
        (if out \<noteq> [] \<and> last out \<noteq> ''..'' then butlast out
         else if \<not> rooted then out @ [''..'']
         else out)
      else out @ [e])"

definition Clean :: "string \<Rightarrow> string" where
  "Clean path =
     (if path = [] then ''.''
      else
        let rooted = (hd path = CHR ''/'');
            out = foldl (cleanStep rooted) [] (Split path CHR ''/'')
        in if rooted then CHR ''/'' # joinSlash out
           else if out = [] then ''.''
           else joinSlash out)"

text \<open>\<open>filepath.Join\<close>: the elements from the first non-empty one on are joined with
  slashes and cleaned; with no non-empty element the result is empty.\<close>

fun Join :: "string list \<Rightarrow> string" where
  "Join [] = []"
| "Join (e # es) = (if e \<noteq> [] then Clean (joinSlash (e # es)) else Join es)"

section \<open>The file system\<close>

text \<open>
  The file system is an association list from (cleaned) paths to nodes. Permissions,
  symbolic links and device errors are not modelled: an operation fails only for the
  reasons the tree itself gives (a missing entry, a file where a directory is needed, a
  directory where a file is needed).
\<close>

datatype node = Dir | File string

type_synonym fs = "(string \<times> node) list"

datatype errno = ENOENT | ENOTDIR | EISDIR | EINVAL

text \<open>The proper ancestors of a path, outermost first: the root for a rooted path, then
  the prefix before each later slash.\<close>

definition ancestors :: "string \<Rightarrow> string list" where
  "ancestors p =
     (if p = ''/'' then []
      else map (\<lambda>i. if i = 0 then ''/'' else take i p)
             (filter (\<lambda>i. p ! i = CHR ''/'') [0..<length p]))"

text \<open>Path resolution: every ancestor must be a directory.\<close>

fun walk :: "fs \<Rightarrow> string list \<Rightarrow> errno option" where
  "walk fs [] = None"
| "walk fs (a # as) =
     (case map_of fs a of
        None \<Rightarrow> Some ENOENT
      | Some (File d) \<Rightarrow> Some ENOTDIR
      | Some Dir \<Rightarrow> walk fs as)"

definition Stat :: "fs \<Rightarrow> string \<Rightarrow> errno + node" where
  "Stat fs p =
     (case walk fs (ancestors p) of
        Some e \<Rightarrow> Inl e
      | None \<Rightarrow> (case map_of fs p of None \<Rightarrow> Inl ENOENT | Some n \<Rightarrow> Inr n))"

definition ReadFile :: "fs \<Rightarrow> string \<Rightarrow> errno + string" where
  "ReadFile fs p =
     (case Stat fs p of
        Inl e \<Rightarrow> Inl e
      | Inr Dir \<Rightarrow> Inl EISDIR
      | Inr (File d) \<Rightarrow> Inr d)"

text \<open>\<open>os.WriteFile\<close> creates or truncates the file; the directory it lies in must exist.\<close>

definition WriteFile :: "fs \<Rightarrow> string \<Rightarrow> string \<Rightarrow> errno + fs" where
  "WriteFile fs p d =
     (case walk fs (ancestors p) of
        Some e \<Rightarrow> Inl e
      | None \<Rightarrow>
          (case map_of fs p of
             Some Dir \<Rightarrow> Inl EISDIR
           | _ \<Rightarrow> Inr ((p, File d) # filter (\<lambda>(q, n). q \<noteq> p) fs)))"

text \<open>\<open>os.MkdirAll\<close>: the path and each missing ancestor become directories; a file on
  the way is an error, found before anything is created.\<close>

fun mkdirs :: "fs \<Rightarrow> string list \<Rightarrow> errno + fs" where
  "mkdirs fs [] = Inr fs"
| "mkdirs fs (a # as) =
     (case map_of fs a of
        Some (File d) \<Rightarrow> Inl ENOTDIR
      | Some Dir \<Rightarrow> mkdirs fs as
      | None \<Rightarrow> mkdirs (fs @ [(a, Dir)]) as)"

definition MkdirAll :: "fs \<Rightarrow> string \<Rightarrow> errno + fs" where
  "MkdirAll fs p = mkdirs fs (ancestors p @ [p])"

text \<open>\<open>os.RemoveAll\<close> removes the path and everything below it, and succeeds when the
  path does not exist; it refuses a path whose last element is a dot.\<close>

definition dirPrefix :: "string \<Rightarrow> string" where
  "dirPrefix p = (if p = ''/'' then p else p @ ''/'')"

definition RemoveAll :: "fs \<Rightarrow> string \<Rightarrow> errno + fs" where
  "RemoveAll fs p =
     (if p = ''.'' \<or> suffix ''/.'' p then Inl EINVAL
      else Inr (filter (\<lambda>(q, n). q \<noteq> p \<and> \<not> prefix (dirPrefix p) q) fs))"

text \<open>\<open>os.ReadDir\<close>: the entries of a directory, sorted by name, each with the flag
  \<open>IsDir\<close>.\<close>

definition entryNames :: "fs \<Rightarrow> string \<Rightarrow> string list" where
  "entryNames fs p =
     sort (remdups
       (map (\<lambda>q. drop (length (dirPrefix p)) q)
          (filter (\<lambda>q. prefix (dirPrefix p) q \<and> length (dirPrefix p) < length q
                        \<and> CHR ''/'' \<notin> set (drop (length (dirPrefix p)) q))
             (map fst fs))))"

definition ReadDir :: "fs \<Rightarrow> string \<Rightarrow> errno + (string \<times> bool) list" where
  "ReadDir fs p =
     (case Stat fs p of
        Inl e \<Rightarrow> Inl e
      | Inr (File d) \<Rightarrow> Inl ENOTDIR
      | Inr Dir \<Rightarrow>
          Inr (map (\<lambda>nm. (nm, map_of fs (dirPrefix p @ nm) = Some Dir)) (entryNames fs p)))"

section \<open>The session launcher: \<open>setupConfig\<close>\<close>

record Config =
  Timezone :: string
  Date :: string
  Time :: string
  LogDir :: string
  RCFile :: string
  SessionID :: string

text \<open>
  What \<open>setupConfig\<close> reads from outside: the variable \<open>HOME\<close> behind
  \<open>os.UserHomeDir\<close> (which fails when it is empty), the zone database behind
  \<open>time.LoadLocation\<close>, and the clock, as the two renderings of \<open>time.Now()\<close> in a
  location that the function makes (layouts \<open>2006-01-02\<close> and \<open>15:04:05\<close>).
\<close>

record 'loc session_env =
  HOME :: string
  LoadLocation :: "string \<Rightarrow> 'loc option"
  nowDate :: "'loc \<Rightarrow> string"
  nowTime :: "'loc \<Rightarrow> string"

datatype session_error =
    InvalidTimezone       \<comment> \<open>\<open>invalid timezone: ...\<close>\<close>
  | HomeDirFailure        \<comment> \<open>\<open>failed to get home directory: ...\<close>\<close>
  | LogDirFailure errno   \<comment> \<open>\<open>failed to create log directory: ...\<close>\<close>

definition UserHomeDir :: "'loc session_env \<Rightarrow> string option" where
  "UserHomeDir E = (if HOME E = [] then None else Some (HOME E))"

text \<open>The three defaulting steps, each on the configuration so far.\<close>

definition defaultDate :: "'loc session_env \<Rightarrow> Config \<Rightarrow> session_error + Config" where
  "defaultDate E config =
     (if Date config = [] then
        (case LoadLocation E (Timezone config) of
           None \<Rightarrow> Inl InvalidTimezone
         | Some loc \<Rightarrow> Inr (config\<lparr>Date := nowDate E loc\<rparr>))
      else Inr config)"

definition defaultTime :: "'loc session_env \<Rightarrow> Config \<Rightarrow> session_error + Config" where
  "defaultTime E config =
     (if Time config = [] then
        (case LoadLocation E (Timezone config) of
           None \<Rightarrow> Inl InvalidTimezone
         | Some loc \<Rightarrow> Inr (config\<lparr>Time := nowTime E loc\<rparr>))
      else Inr config)"

definition finishConfig :: "'loc session_env \<Rightarrow> fs \<Rightarrow> Config \<Rightarrow> (session_error + Config) \<times> fs" where
  "finishConfig E fs config0 =
     (let config1 = config0\<lparr>SessionID := ''session_'' @ Date config0 @ ''_'' @ Time config0\<rparr>
      in case UserHomeDir E of
           None \<Rightarrow> (Inl HomeDirFailure, fs)
         | Some homeDir \<Rightarrow>
             (let config2 = config1\<lparr>LogDir := Join [homeDir, ''.bashlog'', ''logs'', Date config1]\<rparr>
              in case MkdirAll fs (LogDir config2) of
                   Inl e \<Rightarrow> (Inl (LogDirFailure e), fs)
                 | Inr fs' \<Rightarrow>
                     (Inr (config2\<lparr>RCFile := Join [homeDir, ''.bashlog'', ''bashlog.rc'']\<rparr>), fs')))"

definition setupConfig ::
  "'loc session_env \<Rightarrow> fs \<Rightarrow> string \<Rightarrow> string \<Rightarrow> string \<Rightarrow> (session_error + Config) \<times> fs" where
  "setupConfig E fs tz date timeStr =
     (let config = \<lparr>Timezone = tz, Date = date, Time = timeStr,
                     LogDir = [], RCFile = [], SessionID = []\<rparr>;
          config = (if Timezone config = [] then config\<lparr>Timezone := ''UTC''\<rparr> else config)
      in case defaultDate E config of
           Inl e \<Rightarrow> (Inl e, fs)
         | Inr config \<Rightarrow>
             (case defaultTime E config of
                Inl e \<Rightarrow> (Inl e, fs)
              | Inr config \<Rightarrow> finishConfig E fs config))"

subsection \<open>A sample environment\<close>

definition sampleEnv :: "string session_env" where
  "sampleEnv = \<lparr>HOME = ''/home/u'',
      LoadLocation = map_of [(''UTC'', ''UTC''), (''Europe/Madrid'', ''CET'')],
      nowDate = (\<lambda>loc. ''2026-11-03''),
      nowTime = (\<lambda>loc. if loc = ''CET'' then ''13:30:00'' else ''12:30:00'')\<rparr>"

definition homeFs :: fs where
  "homeFs = [(''/'', Dir), (''/home'', Dir), (''/home/u'', Dir)]"

section \<open>More of the library: white space, letter case, scanning and printing numbers\<close>

subsection \<open>White space\<close>

text \<open>
  \<open>strings.TrimSpace\<close> and the scanner of \<open>fmt\<close> decide white space by rune, on the
  UTF-8 decoding of the bytes. The white-space runes are the six ASCII ones, U+0085, U+00A0,
  U+1680, U+2000 to U+200A, U+2028, U+2029, U+202F, U+205F and U+3000; they are listed here
  by their encodings. No encoding is a prefix of another one, and a byte sequence decodes
  to one of these runes, from the front or from the back, exactly when it begins or ends
  with the rune's encoding.
\<close>

definition spaceRunes :: "string list" where
  "spaceRunes =
     [[CHR 0x09], [CHR 0x0A], [CHR 0x0B], [CHR 0x0C], [CHR 0x0D], [CHR 0x20],
      [CHR 0xC2, CHR 0x85], [CHR 0xC2, CHR 0xA0],
      [CHR 0xE1, CHR 0x9A, CHR 0x80],
      [CHR 0xE2, CHR 0x80, CHR 0x80], [CHR 0xE2, CHR 0x80, CHR 0x81],
      [CHR 0xE2, CHR 0x80, CHR 0x82], [CHR 0xE2, CHR 0x80, CHR 0x83],
      [CHR 0xE2, CHR 0x80, CHR 0x84], [CHR 0xE2, CHR 0x80, CHR 0x85],
      [CHR 0xE2, CHR 0x80, CHR 0x86], [CHR 0xE2, CHR 0x80, CHR 0x87],
      [CHR 0xE2, CHR 0x80, CHR 0x88], [CHR 0xE2, CHR 0x80, CHR 0x89],
      [CHR 0xE2, CHR 0x80, CHR 0x8A],
      [CHR 0xE2, CHR 0x80, CHR 0xA8], [CHR 0xE2, CHR 0x80, CHR 0xA9],
      [CHR 0xE2, CHR 0x80, CHR 0xAF],
      [CHR 0xE2, CHR 0x81, CHR 0x9F],
      [CHR 0xE3, CHR 0x80, CHR 0x80]]"

text \<open>The number of bytes of the rune of \<open>rs\<close> that the string begins with; 0 if it
  begins with none.\<close>

definition runeLen :: "string list \<Rightarrow> string \<Rightarrow> nat" where
  "runeLen rs s = (case filter (\<lambda>r. prefix r s) rs of [] \<Rightarrow> 0 | r # _ \<Rightarrow> length r)"

fun dropRunes :: "string list \<Rightarrow> string \<Rightarrow> string" where
  "dropRunes rs [] = []"
| "dropRunes rs (c # cs) =
     (if runeLen rs (c # cs) = 0 then c # cs
      else dropRunes rs (drop (runeLen rs (c # cs) - 1) cs))"

text \<open>\<open>strings.TrimSpace\<close>: the white space at the front goes, then the white space at
  the back (the same scan on the reversed bytes, with the encodings reversed).\<close>

definition TrimSpace :: "string \<Rightarrow> string" where
  "TrimSpace s = rev (dropRunes (map rev spaceRunes) (rev (dropRunes spaceRunes s)))"

subsection \<open>Letter case\<close>

text \<open>
  \<open>strings.ToLower\<close>, on the ASCII letters. Go also maps the upper-case letters beyond
  ASCII, by the Unicode tables, which are not modelled: those bytes stay as they are here.
  For the one use in the program, the comparison of the lowered and trimmed answer with
  \<open>yes\<close> and \<open>y\<close>, this gives the same verdict, because no rune beyond ASCII has
  \<open>y\<close>, \<open>e\<close> or \<open>s\<close> as its lower case and no letter lowers to white space.
\<close>

definition lowerChar :: "char \<Rightarrow> char" where
  \<comment> \<open>\<open>c += 'a' - 'A'\<close> for an upper-case letter\<close>
  "lowerChar c =
     (if CHR ''A'' \<le> c \<and> c \<le> CHR ''Z''
      then ''abcdefghijklmnopqrstuvwxyz'' ! (of_char c - of_char CHR ''A'')
      else c)"

definition ToLower :: "string \<Rightarrow> string" where
  "ToLower s = map lowerChar s"

subsection \<open>Machine integers\<close>

text \<open>Go's \<open>int\<close> has 64 bits on the platforms considered; arithmetic on it wraps
  around. Values are kept as integers in the range of \<open>int64\<close>, and \<open>wrap64\<close> is
  applied where the program adds or subtracts.\<close>

definition wrap64 :: "int \<Rightarrow> int" where
  "wrap64 x = (x + 2 ^ 63) mod 2 ^ 64 - 2 ^ 63"

definition inInt64 :: "int \<Rightarrow> bool" where
  "inInt64 x \<longleftrightarrow> - (2 ^ 63) \<le> x \<and> x < 2 ^ 63"

subsection \<open>Scanning a number: \<open>fmt.Sscanf(s, "%d", &v)\<close>\<close>

text \<open>
  The scanner skips white space, where a newline is an error; it then needs a character,
  takes an optional sign, and at least one decimal digit, as many as follow (for the verb
  \<open>%d\<close> the digits are \<open>0\<close> to \<open>9\<close>, so the token ends at an underscore as at any other
  character). \<open>strconv.ParseInt\<close> refuses a value outside \<open>int64\<close>. On every error the
  variable keeps its value: the result \<open>None\<close>. What follows the number in the input is
  left unread.
\<close>

fun SkipSpace :: "string \<Rightarrow> string option" where
  "SkipSpace [] = Some []"
| "SkipSpace (c # cs) =
     (if c = CHR 0x0A then None
      else if runeLen spaceRunes (c # cs) = 0 then Some (c # cs)
      else SkipSpace (drop (runeLen spaceRunes (c # cs) - 1) cs))"

definition isDigit :: "char \<Rightarrow> bool" where
  "isDigit c \<longleftrightarrow> CHR ''0'' \<le> c \<and> c \<le> CHR ''9''"

definition digitVal :: "char \<Rightarrow> nat" where
  "digitVal c = of_char c - 48"

definition decimal :: "string \<Rightarrow> nat" where
  "decimal tok = foldl (\<lambda>a c. 10 * a + digitVal c) 0 tok"

definition Sscanf_d :: "string \<Rightarrow> int option" where
  "Sscanf_d input =
     (case SkipSpace input of
        None \<Rightarrow> None
      | Some [] \<Rightarrow> None
      | Some (c # cs) \<Rightarrow>
          (let neg = (c = CHR ''-'');
               rest = (if c = CHR ''+'' \<or> c = CHR ''-'' then cs else c # cs);
               tok = takeWhile isDigit rest;
               v = (if neg then - int (decimal tok) else int (decimal tok))
           in if tok = [] then None
              else if inInt64 v then Some v
              else None))"

subsection \<open>Printing a number: the verbs \<open>%d\<close> and \<open>%3d\<close>\<close>

definition digitChar :: "nat \<Rightarrow> char" where
  "digitChar d = ''0123456789'' ! d"

fun showNat :: "nat \<Rightarrow> string" where
  "showNat n =
     (if n < 10 then [digitChar n]
      else showNat (n div 10) @ [digitChar (n mod 10)])"

declare showNat.simps [simp del]

definition showInt :: "int \<Rightarrow> string" where
  "showInt i = (if i < 0 then CHR ''-'' # showNat (nat (- i)) else showNat (nat i))"

definition padLeft :: "nat \<Rightarrow> string \<Rightarrow> string" where
  "padLeft w s = replicate (w - length s) CHR '' '' @ s"

subsection \<open>Floating point: \<open>float64(a) / float64(b)\<close> and the verb \<open>%.2f\<close>\<close>

text \<open>
  A \<open>float64\<close> is kept as a mantissa and a binary exponent, the pair \<open>(m, k)\<close> for the
  value \<open>m * 2 ^ k\<close>. The conversion of an integer and the division both give the value
  of 53 bits nearest to the exact result, a tie going to the even mantissa. The operands
  here are an \<open>int\<close> and a positive length, so neither infinities, nor values that are not
  numbers, nor the subnormal range occur.
\<close>

type_synonym double = "int \<times> int"

fun bitlen :: "nat \<Rightarrow> int" where
  "bitlen n = (if n = 0 then 0 else 1 + bitlen (n div 2))"

declare bitlen.simps [simp del]

text \<open>The integer nearest to \<open>num / den\<close>, the even one of two that are equally near.\<close>

definition roundEvenDiv :: "int \<Rightarrow> int \<Rightarrow> int" where
  "roundEvenDiv num den =
     (let q = num div den; r = num mod den
      in if 2 * r < den then q
         else if den < 2 * r then q + 1
         else if even q then q else q + 1)"

text \<open>
  The \<open>float64\<close> nearest to \<open>a / b\<close>, for \<open>b > 0\<close>. With \<open>k0\<close> as below the quotient
  divided by \<open>2 ^ k0\<close> lies between \<open>2 ^ 52\<close> and \<open>2 ^ 54\<close>; the exponent \<open>k\<close> is the one that
  brings it below \<open>2 ^ 53\<close>, and the mantissa is that scaled quotient, rounded.
\<close>

definition nearestFloat64 :: "int \<Rightarrow> int \<Rightarrow> double" where
  "nearestFloat64 a b =
     (if a = 0 then (0, 0)
      else
        let k0 = bitlen (nat \<bar>a\<bar>) - bitlen (nat b) - 53;
            k = (if \<bar>a\<bar> * 2 ^ nat (- k0) < 2 ^ 53 * (b * 2 ^ nat k0) then k0 else k0 + 1);
            m = roundEvenDiv (\<bar>a\<bar> * 2 ^ nat (- k)) (b * 2 ^ nat k)
        in (sgn a * m, k))"

text \<open>\<open>float64(i)\<close> for an integer: its value, which is an integer again.\<close>

definition float64 :: "int \<Rightarrow> int" where
  "float64 i = (case nearestFloat64 i 1 of (m, k) \<Rightarrow> m * 2 ^ nat k div 2 ^ nat (- k))"

text \<open>The quotient of two \<open>float64\<close> values that are integers, the divisor positive.\<close>

definition divFloat64 :: "int \<Rightarrow> int \<Rightarrow> double" where
  "divFloat64 x y = nearestFloat64 x y"

text \<open>
  \<open>fmt.Sprintf("%.2f", x)\<close>: the decimal expansion of the value, rounded at the second
  decimal to the nearest, a tie going to the even digit; a minus sign for a negative value.
\<close>

definition Sprintf_2f :: "double \<Rightarrow> string" where
  "Sprintf_2f x =
     (case x of
        (m, k) \<Rightarrow>
          let h = nat (roundEvenDiv (\<bar>m\<bar> * 100 * 2 ^ nat k) (2 ^ nat (- k)))
          in (if m < 0 then ''-'' else []) @ showNat (h div 100) @ ''.''
             @ [digitChar (h div 10 mod 10), digitChar (h mod 10)])"

section \<open>The workspace manager\<close>

definition configFile :: string where
  "configFile = ''config.txt''"

record Workspace =
  Name :: string
  CreatedAt :: int
  Path :: string
  CommandCount :: int

text \<open>
  A \<open>time.Time\<close> is an instant, kept as an integer with 0 for the zero time; \<open>After\<close>
  and \<open>Before\<close> compare instants. What the manager takes from the library \<open>time\<close>
  without its being modelled is a parameter: the parser of the RFC 3339 layout, the
  rendering of an instant in the layout \<open>2006-01-02\<close>, and the current time in the RFC 3339
  layout.
\<close>

record lib =
  parseRFC3339 :: "string \<Rightarrow> int option"
  formatDay :: "int \<Rightarrow> string"
  nowRFC3339 :: string

text \<open>
  What a run of a handler leaves: the chunks written to the two streams, one per call of a
  printing function, how the run ended, and the file system. A handler that returns lets
  the program end with status 0; a panic ends it with status 2, after the run-time's own
  report, which is not part of the chunks.
\<close>

datatype status = Returned | Exit nat | Panic

record outcome =
  stdout :: "string list"
  stderr :: "string list"
  status :: status
  fsys :: fs

definition exitCode :: "status \<Rightarrow> nat" where
  "exitCode st = (case st of Returned \<Rightarrow> 0 | Exit n \<Rightarrow> n | Panic \<Rightarrow> 2)"

text \<open>The text of an operating-system error under the verb \<open>%v\<close>.\<close>

definition errnoText :: "errno \<Rightarrow> string" where
  "errnoText e =
     (case e of
        ENOENT \<Rightarrow> ''no such file or directory''
      | ENOTDIR \<Rightarrow> ''not a directory''
      | EISDIR \<Rightarrow> ''is a directory''
      | EINVAL \<Rightarrow> ''invalid argument'')"

definition pathError :: "string \<Rightarrow> string \<Rightarrow> errno \<Rightarrow> string" where
  "pathError op p e = op @ '' '' @ p @ '': '' @ errnoText e"

subsection \<open>\<open>readConfig\<close>\<close>

text \<open>\<open>strings.SplitN(line, "=", 2)\<close>: the line cut at its first separator, or the line
  alone when it has none.\<close>

definition SplitN2 :: "string \<Rightarrow> char \<Rightarrow> string list" where
  "SplitN2 s sep =
     (if sep \<in> set s
      then [takeWhile (\<lambda>c. c \<noteq> sep) s, drop 1 (dropWhile (\<lambda>c. c \<noteq> sep) s)]
      else [s])"

fun configLoop :: "string list \<Rightarrow> (string \<rightharpoonup> string) \<Rightarrow> (string \<rightharpoonup> string)" where
  "configLoop [] config = config"
| "configLoop (line # lines) config =
     (let parts = SplitN2 line CHR ''=''
      in if length parts = 2
         then configLoop lines (config(TrimSpace (parts ! 0) \<mapsto> TrimSpace (parts ! 1)))
         else configLoop lines config)"

definition readConfig :: "fs \<Rightarrow> string \<Rightarrow> (string \<rightharpoonup> string)" where
  "readConfig fs configPath =
     (case ReadFile fs configPath of
        Inl e \<Rightarrow> Map.empty
      | Inr data \<Rightarrow> configLoop (Split data nl) Map.empty)"

text \<open>Indexing a Go map: the empty string for a key that is not there.\<close>

definition index :: "(string \<rightharpoonup> string) \<Rightarrow> string \<Rightarrow> string" where
  "index config k = (case config k of None \<Rightarrow> [] | Some v \<Rightarrow> v)"

subsection \<open>\<open>getWorkspaces\<close>\<close>

fun entryLoop :: "lib \<Rightarrow> fs \<Rightarrow> string \<Rightarrow> (string \<times> bool) list \<Rightarrow> Workspace list" where
  "entryLoop L fs basePath [] = []"
| "entryLoop L fs basePath ((entryName, entryIsDir) # entries) =
     (if entryIsDir then
        (let wsPath = Join [basePath, entryName];
             config = readConfig fs (Join [wsPath, configFile]);
             createdTime = (case parseRFC3339 L (index config ''created'') of
                              None \<Rightarrow> 0 | Some t \<Rightarrow> t);
             commandCount = (case Sscanf_d (index config ''commands'') of
                               None \<Rightarrow> 0 | Some n \<Rightarrow> n)
         in \<lparr>Name = entryName, CreatedAt = createdTime, Path = wsPath,
              CommandCount = commandCount\<rparr> # entryLoop L fs basePath entries)
      else entryLoop L fs basePath entries)"

text \<open>
  \<open>sort.Slice\<close> with \<open>less(i, j) = workspaces[i].CreatedAt.After(workspaces[j].CreatedAt)\<close>
  orders the workspaces by falling creation time. It is modelled by the stable insertion
  sort, which is what Go runs on slices of up to twelve elements; on longer ones the order
  among workspaces of one creation time is not fixed by the library.
\<close>

definition getWorkspaces :: "lib \<Rightarrow> fs \<Rightarrow> string \<Rightarrow> errno + Workspace list" where
  "getWorkspaces L fs basePath =
     (case ReadDir fs basePath of
        Inl e \<Rightarrow> (if e = ENOENT then Inr [] else Inl e)
      | Inr entries \<Rightarrow>
          Inr (sort_key (\<lambda>ws. - CreatedAt ws) (entryLoop L fs basePath entries)))"

subsection \<open>\<open>handleCreate\<close>\<close>

definition checkMark :: string where
  \<comment> \<open>U+2713 in UTF-8\<close>
  "checkMark = [CHR 0xE2, CHR 0x9C, CHR 0x93]"

definition failWith :: "fs \<Rightarrow> string list \<Rightarrow> string list \<Rightarrow> outcome" where
  \<comment> \<open>the lines for the error stream, then \<open>os.Exit(1)\<close>\<close>
  "failWith fs out msgs = \<lparr>stdout = out, stderr = msgs, status = Exit 1, fsys = fs\<rparr>"

definition handleCreate :: "lib \<Rightarrow> fs \<Rightarrow> string \<Rightarrow> string list \<Rightarrow> outcome" where
  "handleCreate L fs basePath args =
     (if length args = 0 then
        failWith fs [] [''Error: workspace name required'' @ [nl],
                        ''Usage: bashlog-mgr create <name>'' @ [nl]]
      else
        let name = args ! 0 in
        if \<not> isValidName name then
          failWith fs [] [''Error: invalid workspace name '' @ quoted name @ [nl],
            ''Names must contain only alphanumeric characters, hyphens, and underscores'' @ [nl]]
        else
          let wsPath = Join [basePath, name] in
          (case Stat fs wsPath of
             Inr info \<Rightarrow>
               failWith fs [] [''Error: workspace '' @ quoted name @ '' already exists'' @ [nl]]
           | Inl notThere \<Rightarrow>
               (case MkdirAll fs wsPath of
                  Inl e \<Rightarrow>
                    failWith fs [] [''Error creating workspace: '' @ pathError ''mkdir'' wsPath e @ [nl]]
                | Inr fs1 \<Rightarrow>
                    let configPath = Join [wsPath, configFile];
                        config = ''name='' @ name @ [nl] @ ''created='' @ nowRFC3339 L @ [nl]
                                 @ ''commands=0'' @ [nl]
                    in (case WriteFile fs1 configPath config of
                          Inl e \<Rightarrow>
                            failWith fs1 []
                              [''Error creating config file: '' @ pathError ''open'' configPath e @ [nl]]
                        | Inr fs2 \<Rightarrow>
                            let historyPath = Join [wsPath, ''history.log'']
                            in (case WriteFile fs2 historyPath [] of
                                  Inl e \<Rightarrow>
                                    failWith fs2 []
                                      [''Error creating history file: ''
                                       @ pathError ''open'' historyPath e @ [nl]]
                                | Inr fs3 \<Rightarrow>
                                    \<lparr>stdout = [checkMark @ '' Workspace '' @ quoted name
                                                @ '' created successfully at '' @ wsPath @ [nl]],
                                     stderr = [], status = Returned, fsys = fs3\<rparr>)))))"

subsection \<open>\<open>handleDelete\<close>\<close>

text \<open>\<open>bufio.Reader.ReadString(delim)\<close> on the bytes still to come on standard input:
  the bytes up to the first delimiter, with it; all of them when there is none (the error
  that is then returned is dropped by the caller).\<close>

definition ReadString :: "string \<Rightarrow> char \<Rightarrow> string" where
  "ReadString input delim =
     (if delim \<in> set input then takeWhile (\<lambda>c. c \<noteq> delim) input @ [delim] else input)"

definition handleDelete :: "fs \<Rightarrow> string \<Rightarrow> string \<Rightarrow> string list \<Rightarrow> outcome" where
  "handleDelete fs stdin basePath args =
     (if length args = 0 then
        failWith fs [] [''Error: workspace name required'' @ [nl],
                        ''Usage: bashlog-mgr delete <name>'' @ [nl]]
      else
        let name = args ! 0;
            wsPath = Join [basePath, name]
        in (case Stat fs wsPath of
              Inl notThere \<Rightarrow>
                failWith fs [] [''Error: workspace '' @ quoted name @ '' not found'' @ [nl]]
            | Inr info \<Rightarrow>
                let prompt = ''Are you sure you want to delete workspace '' @ quoted name
                             @ ''? (yes/no): '';
                    response = ReadString stdin nl;
                    response = TrimSpace (ToLower response)
                in if response \<noteq> ''yes'' \<and> response \<noteq> ''y'' then
                     \<lparr>stdout = [prompt, ''Deletion cancelled'' @ [nl]], stderr = [],
                      status = Returned, fsys = fs\<rparr>
                   else
                     (case RemoveAll fs wsPath of
                        Inl e \<Rightarrow>
                          failWith fs [prompt]
                            [''Error deleting workspace: '' @ pathError ''RemoveAll'' wsPath e @ [nl]]
                      | Inr fs' \<Rightarrow>
                          \<lparr>stdout = [prompt, checkMark @ '' Workspace '' @ quoted name
                                      @ '' deleted successfully'' @ [nl]],
                           stderr = [], status = Returned, fsys = fs'\<rparr>)))"

subsection \<open>\<open>handleView\<close>\<close>

text \<open>The loop \<open>for i := start; i < count; i++\<close> over the lines.\<close>

function viewLoop :: "string list \<Rightarrow> nat \<Rightarrow> nat \<Rightarrow> string list" where
  "viewLoop lines i count =
     (if i < count then
        (if lines ! i \<noteq> [] then [''  '' @ lines ! i @ [nl]] else []) @ viewLoop lines (i + 1) count
      else [])"
  by pat_completeness auto
termination
  by (relation "measure (\<lambda>(lines, i, count). count - i)") auto

declare viewLoop.simps [simp del]

definition handleView :: "fs \<Rightarrow> string \<Rightarrow> string list \<Rightarrow> outcome" where
  "handleView fs basePath args =
     (if length args = 0 then
        failWith fs [] [''Error: workspace name required'' @ [nl],
                        ''Usage: bashlog-mgr view <name>'' @ [nl]]
      else
        let name = args ! 0;
            wsPath = Join [basePath, name]
        in (case Stat fs wsPath of
              Inl notThere \<Rightarrow>
                failWith fs [] [''Error: workspace '' @ quoted name @ '' not found'' @ [nl]]
            | Inr info \<Rightarrow>
                let config = readConfig fs (Join [wsPath, configFile]);
                    top = [[nl] @ ''=== Workspace: '' @ name @ '' ==='' @ [nl],
                           ''Path: '' @ wsPath @ [nl],
                           ''Created: '' @ index config ''created'' @ [nl],
                           ''Commands Logged: '' @ index config ''commands'' @ [nl]];
                    historyPath = Join [wsPath, ''history.log''];
                    recent =
                      (case ReadFile fs historyPath of
                         Inl e \<Rightarrow> []
                       | Inr data \<Rightarrow>
                           let lines = Split (TrimSpace data) nl;
                               count = length lines
                           in if count > 0 \<and> lines ! 0 \<noteq> [] then
                                (let start = int count - 5;
                                     start = (if start < 0 then 0 else start)
                                 in ([nl] @ ''Recent Commands (last 5):'' @ [nl])
                                    # viewLoop lines (nat start) count)
                              else [])
                in \<lparr>stdout = top @ recent @ [[nl]], stderr = [], status = Returned, fsys = fs\<rparr>))"

subsection \<open>\<open>handleStats\<close>\<close>

text \<open>The loop over the workspaces: the running total (an \<open>int\<close>, so it wraps), the
  oldest and the newest workspace so far.\<close>

fun statsLoop :: "Workspace list \<Rightarrow> int \<times> Workspace \<times> Workspace \<Rightarrow> int \<times> Workspace \<times> Workspace" where
  "statsLoop [] acc = acc"
| "statsLoop (ws # rest) (totalCommands, oldestWorkspace, newestWorkspace) =
     statsLoop rest
       (wrap64 (totalCommands + CommandCount ws),
        (if CreatedAt ws < CreatedAt oldestWorkspace then ws else oldestWorkspace),
        (if CreatedAt ws > CreatedAt newestWorkspace then ws else newestWorkspace))"

definition handleStats :: "lib \<Rightarrow> fs \<Rightarrow> string \<Rightarrow> string list \<Rightarrow> outcome" where
  "handleStats L fs basePath args =
     (case getWorkspaces L fs basePath of
        Inl e \<Rightarrow>
          failWith fs [] [''Error reading workspaces: '' @ pathError ''open'' basePath e @ [nl]]
      | Inr workspaces \<Rightarrow>
          if length workspaces = 0 then
            \<lparr>stdout = [''No workspaces found'' @ [nl]], stderr = [], status = Returned, fsys = fs\<rparr>
          else
            (case statsLoop workspaces (0, workspaces ! 0, workspaces ! 0) of
               (totalCommands, oldestWorkspace, newestWorkspace) \<Rightarrow>
                 \<lparr>stdout =
                    [[nl] @ ''=== Workspace Statistics ==='' @ [nl],
                     ''Total Workspaces: '' @ showNat (length workspaces) @ [nl],
                     ''Total Commands Logged: '' @ showInt totalCommands @ [nl]]
                    @ (if length workspaces > 0 then
                         [''Average Commands per Workspace: ''
                          @ Sprintf_2f (divFloat64 (float64 totalCommands)
                                          (float64 (int (length workspaces))))
                          @ [nl]]
                       else [])
                    @ [''Oldest Workspace: '' @ Name oldestWorkspace @ '' (created ''
                       @ formatDay L (CreatedAt oldestWorkspace) @ '')'' @ [nl],
                       ''Newest Workspace: '' @ Name newestWorkspace @ '' (created ''
                       @ formatDay L (CreatedAt newestWorkspace) @ '')'' @ [nl],
                       [nl]],
                  stderr = [], status = Returned, fsys = fs\<rparr>))"

subsection \<open>\<open>handleHistory\<close>\<close>

text \<open>The loop \<open>for i, line := range historyLines[start:]\<close>.\<close>

fun historyLoop :: "nat \<Rightarrow> string list \<Rightarrow> string list" where
  "historyLoop i [] = []"
| "historyLoop i (line # rest) =
     (if line \<noteq> [] then [padLeft 3 (showNat (i + 1)) @ ''. '' @ line @ [nl]] else [])
     @ historyLoop (i + 1) rest"

text \<open>
  The slice expression \<open>historyLines[start:]\<close>, for \<open>start := len(historyLines) - lines\<close>
  in 64-bit arithmetic, reset to 0 when negative: it panics when \<open>start\<close> exceeds the
  length (the result \<open>None\<close>).
\<close>

definition lastLines :: "string list \<Rightarrow> int \<Rightarrow> string list option" where
  "lastLines historyLines lines =
     (let start = wrap64 (int (length historyLines) - lines);
          start = (if start < 0 then 0 else start)
      in if start > int (length historyLines) then None
         else Some (drop (nat start) historyLines))"

definition handleHistory :: "fs \<Rightarrow> string \<Rightarrow> string list \<Rightarrow> outcome" where
  "handleHistory fs basePath args =
     (if length args = 0 then
        failWith fs [] [''Error: workspace name required'' @ [nl],
                        ''Usage: bashlog-mgr history <name> [lines]'' @ [nl]]
      else
        let name = args ! 0;
            wsPath = Join [basePath, name]
        in (case Stat fs wsPath of
              Inl notThere \<Rightarrow>
                failWith fs [] [''Error: workspace '' @ quoted name @ '' not found'' @ [nl]]
            | Inr info \<Rightarrow>
                let lines = (if length args > 1
                             then (case Sscanf_d (args ! 1) of None \<Rightarrow> 20 | Some n \<Rightarrow> n)
                             else 20);
                    historyPath = Join [wsPath, ''history.log'']
                in (case ReadFile fs historyPath of
                      Inl e \<Rightarrow>
                        failWith fs [] [''Error reading history: ''
                                        @ pathError ''open'' historyPath e @ [nl]]
                    | Inr data \<Rightarrow>
                        if length data = 0 then
                          \<lparr>stdout = [''No command history for workspace '' @ quoted name @ [nl]],
                           stderr = [], status = Returned, fsys = fs\<rparr>
                        else
                          let historyLines = Split (TrimSpace data) nl;
                              header = [[nl] @ ''=== Command History for '' @ quoted name
                                        @ '' (last '' @ showInt lines @ '' commands) ==='' @ [nl],
                                        replicate 80 CHR ''-'' @ [nl]]
                          in (case lastLines historyLines lines of
                                None \<Rightarrow>
                                  \<lparr>stdout = header, stderr = [], status = Panic, fsys = fs\<rparr>
                              | Some shown \<Rightarrow>
                                  \<lparr>stdout = header @ historyLoop 0 shown @ [[nl]],
                                   stderr = [], status = Returned, fsys = fs\<rparr>))))"

subsection \<open>A sample store\<close>

text \<open>Instants are seconds from the zero time.\<close>

definition sampleLib :: lib where
  "sampleLib =
     \<lparr>parseRFC3339 = map_of [(''2024-01-01T00:00:00Z'', 63839664000),
                              (''2024-01-02T00:00:00Z'', 63839750400),
                              (''2024-01-03T00:00:00Z'', 63839836800)],
      formatDay = (\<lambda>t. if t = 63839664000 then ''2024-01-01''
                        else if t = 63839750400 then ''2024-01-02''
                        else if t = 63839836800 then ''2024-01-03''
                        else ''0001-01-01''),
      nowRFC3339 = ''2024-01-04T00:00:00Z''\<rparr>"

definition base :: string where
  "base = ''/home/u/.bashlog-workspaces''"

text \<open>The two files of a workspace directory, and the directory.\<close>

definition workspaceAt :: "string \<Rightarrow> string \<Rightarrow> string \<Rightarrow> fs" where
  "workspaceAt name config history =
     [(base @ ''/'' @ name, Dir),
      (base @ ''/'' @ name @ ''/config.txt'', File config),
      (base @ ''/'' @ name @ ''/history.log'', File history)]"

definition emptyStore :: fs where
  "emptyStore = homeFs @ [(base, Dir)]"

definition threeStore :: fs where
  "threeStore = emptyStore
     @ workspaceAt ''alpha'' (''name=alpha'' @ [nl] @ ''created=2024-01-01T00:00:00Z'' @ [nl]
                              @ ''commands=2'' @ [nl]) (''ls'' @ [nl] @ ''pwd'' @ [nl])
     @ workspaceAt ''beta'' (''name=beta'' @ [nl] @ ''created=2024-01-03T00:00:00Z'' @ [nl]
                             @ ''commands=4'' @ [nl]) []
     @ workspaceAt ''gamma'' (''name=gamma'' @ [nl] @ ''created=2024-01-02T00:00:00Z'' @ [nl]
                              @ ''commands=6'' @ [nl]) (''make'' @ [nl])"

definition bigStore :: fs where
  "bigStore = emptyStore
     @ workspaceAt ''p'' (''commands=9223372036854775807'' @ [nl]) []
     @ workspaceAt ''q'' (''commands=1'' @ [nl]) []"

definition gapStore :: fs where
  "gapStore = emptyStore
     @ workspaceAt ''gap'' [] (''a'' @ [nl] @ ''b'' @ [nl] @ ''c'' @ [nl] @ ''d'' @ [nl] @ [nl]
                               @ ''e'' @ [nl])"

definition blankStore :: fs where
  "blankStore = emptyStore @ workspaceAt ''blank'' [] (''ls'' @ [nl, nl, nl])"

subsection \<open>The history lines as C4 words them\<close>

text \<open>
  This definition follows the words of the claim, not the code: the file is cut into
  lines, exactly one empty last piece (the artifact of a final newline) is dropped and
  nothing else, and the last \<open>n\<close> lines are returned, all of them when there are fewer.
\<close>

definition claimedHistory :: "string \<Rightarrow> nat \<Rightarrow> string list" where
  "claimedHistory data n =
     (let pieces = Split data nl;
          ls = (if last pieces = [] then butlast pieces else pieces)
      in drop (length ls - n) ls)"

section \<open>Properties\<close>

lemma validLoop_iff: "validLoop s \<longleftrightarrow> list_all validChar s"
  by (induction s) auto

text \<open>
  C9. \<open>isValidName\<close> accepts a name exactly when it has between 1 and 255 characters and
  each of them is an ASCII letter, a digit, a hyphen or an underscore. Hence it rejects the
  empty string, every string of more than 255 characters (one of 256 among them) and every
  string with a character outside that set, and accepts \<open>my-project_01\<close>.
\<close>

theorem isValidName_spec:
  "(isValidName name \<longleftrightarrow>
      1 \<le> length name \<and> length name \<le> 255 \<and> list_all validChar name) \<and>
   \<not> isValidName [] \<and>
   (length name > 255 \<longrightarrow> \<not> isValidName name) \<and>
   (length name = 256 \<longrightarrow> \<not> isValidName name) \<and>
   ((\<exists>ch \<in> set name. \<not> validChar ch) \<longrightarrow> \<not> isValidName name) \<and>
   isValidName ''my-project_01''"
proof -
  have main: "isValidName n \<longleftrightarrow> 1 \<le> length n \<and> length n \<le> 255 \<and> list_all validChar n"
    for n
    by (cases n) (auto simp: isValidName_def validLoop_iff)
  have ex: "isValidName ''my-project_01''"
    unfolding main by (simp add: validChar_def)
  show ?thesis
    using main [of name] main [of "[]"] ex by (auto simp: list_all_iff)
qed

theorem isValidName_spec_witness:
  "isValidName ''ws_1'' \<and> \<not> isValidName ''a.b'' \<and> \<not> isValidName (replicate 256 CHR ''a'')
   \<and> isValidName (replicate 255 CHR ''a'')"
proof -
  have a: "isValidName ''ws_1''"
    using isValidName_spec [of "''ws_1''"] by (simp add: validChar_def)
  have b: "\<not> isValidName ''a.b''"
    using isValidName_spec [of "''a.b''"] by (simp add: validChar_def)
  have c: "\<not> isValidName (replicate 256 CHR ''a'')"
    using isValidName_spec [of "replicate 256 CHR ''a''"] by simp
  have d: "isValidName (replicate 255 CHR ''a'')"
    using isValidName_spec [of "replicate 255 CHR ''a''"]
    by (simp add: validChar_def list_all_iff)
  show ?thesis using a b c d by simp
qed

subsection \<open>Splitting, joining and paths\<close>

lemma Split_nonempty: "Split s sep \<noteq> []"
  by (induction s) (auto split: list.splits)

lemma Split_append_sep: "Split (a @ sep # b) sep = Split a sep @ Split b sep"
  by (induction a) (auto simp: Split_nonempty split: list.splits)

lemma joinSlash_Cons: "es \<noteq> [] \<Longrightarrow> joinSlash (e # es) = e @ CHR ''/'' # joinSlash es"
  by (cases es) auto

lemma joinSlash_append:
  "ys \<noteq> [] \<Longrightarrow> joinSlash (xs @ ys) = (if xs = [] then joinSlash ys else joinSlash xs @ CHR ''/'' # joinSlash ys)"
  by (induction xs rule: joinSlash.induct) (auto simp: joinSlash_Cons)

lemma logdir_suffix:
  assumes "h \<noteq> []"
  shows "suffix ''logs/2024-01-01'' (Join [h, ''.bashlog'', ''logs'', ''2024-01-01''])"
proof -
  define r where "r = (hd h = CHR ''/'')"
  define out where "out = foldl (cleanStep r) [] (Split h CHR ''/'')"
  have j: "joinSlash [h, ''.bashlog'', ''logs'', ''2024-01-01''] = h @ CHR ''/'' # ''.bashlog/logs/2024-01-01''"
    by simp
  have sp: "Split (h @ CHR ''/'' # ''.bashlog/logs/2024-01-01'') CHR ''/''
      = Split h CHR ''/'' @ [''.bashlog'', ''logs'', ''2024-01-01'']"
    unfolding Split_append_sep by simp
  have fo: "foldl (cleanStep r) [] (Split h CHR ''/'' @ [''.bashlog'', ''logs'', ''2024-01-01''])
      = out @ [''.bashlog'', ''logs'', ''2024-01-01'']"
    by (simp add: out_def cleanStep_def)
  have js: "joinSlash (out @ [''.bashlog'', ''logs'', ''2024-01-01''])
      = (if out = [] then [] else joinSlash out @ ''/'') @ ''.bashlog/'' @ ''logs/2024-01-01''"
    by (simp add: joinSlash_append)
  have hd: "hd (h @ CHR ''/'' # ''.bashlog/logs/2024-01-01'') = hd h"
    using assms by simp
  have "Join [h, ''.bashlog'', ''logs'', ''2024-01-01'']
      = (if r then ''/'' else []) @ (if out = [] then [] else joinSlash out @ ''/'') @ ''.bashlog/'' @ ''logs/2024-01-01''"
    using assms unfolding Join.simps j Clean_def Let_def hd sp r_def [symmetric] fo js
    by simp
  then show ?thesis
    unfolding suffix_def by (metis append.assoc)
qed


subsection \<open>Session configuration\<close>

text \<open>
  C1, as stated, fails: with both the date and the time supplied, \<open>setupConfig\<close> never
  resolves the timezone, so a zone that the database does not know is accepted.
\<close>

theorem setupConfig_timezone_counterexample:
  "LoadLocation sampleEnv ''Mars/Olympus'' = None \<and>
   fst (setupConfig sampleEnv homeFs ''Mars/Olympus'' ''2024-01-01'' ''12:00:00'') =
     Inr \<lparr>Timezone = ''Mars/Olympus'', Date = ''2024-01-01'', Time = ''12:00:00'',
          LogDir = ''/home/u/.bashlog/logs/2024-01-01'',
          RCFile = ''/home/u/.bashlog/bashlog.rc'',
          SessionID = ''session_2024-01-01_12:00:00''\<rparr>"
  by (simp add: sampleEnv_def homeFs_def setupConfig_def defaultDate_def defaultTime_def
      finishConfig_def UserHomeDir_def Clean_def cleanStep_def MkdirAll_def ancestors_def)

text \<open>
  C1, amended. A supplied timezone that cannot be resolved makes \<open>setupConfig\<close> fail
  with the invalid-timezone error, the file system untouched, whenever the date or the time
  is not supplied; when both are supplied, the timezone is not resolved and the build does
  not fail with that error.
\<close>

theorem setupConfig_invalid_timezone:
  "tz \<noteq> [] \<and> LoadLocation E tz = None \<longrightarrow>
     ((date = [] \<or> timeStr = []) \<longrightarrow>
        setupConfig E fs tz date timeStr = (Inl InvalidTimezone, fs)) \<and>
     (date \<noteq> [] \<and> timeStr \<noteq> [] \<longrightarrow>
        fst (setupConfig E fs tz date timeStr) \<noteq> Inl InvalidTimezone)"
  by (auto simp: setupConfig_def defaultDate_def defaultTime_def finishConfig_def Let_def
      split: option.splits sum.splits)

theorem setupConfig_invalid_timezone_witness:
  "setupConfig sampleEnv homeFs ''Mars/Olympus'' [] ''12:00:00'' = (Inl InvalidTimezone, homeFs) \<and>
   setupConfig sampleEnv homeFs ''Mars/Olympus'' ''2024-01-01'' [] = (Inl InvalidTimezone, homeFs) \<and>
   fst (setupConfig sampleEnv homeFs ''Mars/Olympus'' ''2024-01-01'' ''12:00:00'') \<noteq> Inl InvalidTimezone"
proof -
  have z: "''Mars/Olympus'' \<noteq> [] \<and> LoadLocation sampleEnv ''Mars/Olympus'' = None"
    by (simp add: sampleEnv_def)
  show ?thesis
    using z setupConfig_invalid_timezone [of "''Mars/Olympus''" sampleEnv "[]" "''12:00:00''" homeFs]
      setupConfig_invalid_timezone [of "''Mars/Olympus''" sampleEnv "''2024-01-01''" "[]" homeFs]
      setupConfig_invalid_timezone [of "''Mars/Olympus''" sampleEnv "''2024-01-01''" "''12:00:00''" homeFs]
    by simp
qed

lemma setupConfig_Inr:
  assumes "setupConfig E fs tz date timeStr = (Inr c, fs')"
  shows "SessionID c = ''session_'' @ Date c @ ''_'' @ Time c"
    and "date \<noteq> [] \<Longrightarrow> Date c = date"
    and "timeStr \<noteq> [] \<Longrightarrow> Time c = timeStr"
  using assms
  by (auto simp: setupConfig_def defaultDate_def defaultTime_def finishConfig_def Let_def
      split: option.splits sum.splits if_splits)

lemma setupConfig_explicit:
  assumes "date \<noteq> []" "timeStr \<noteq> []" "HOME E \<noteq> []"
    and "MkdirAll fs (Join [HOME E, ''.bashlog'', ''logs'', date]) = Inr fs'"
  shows "setupConfig E fs tz date timeStr =
    (Inr \<lparr>Timezone = (if tz = [] then ''UTC'' else tz), Date = date, Time = timeStr,
          LogDir = Join [HOME E, ''.bashlog'', ''logs'', date],
          RCFile = Join [HOME E, ''.bashlog'', ''bashlog.rc''],
          SessionID = ''session_'' @ date @ ''_'' @ timeStr\<rparr>, fs')"
  using assms
  by (simp add: setupConfig_def defaultDate_def defaultTime_def finishConfig_def Let_def
      UserHomeDir_def)

text \<open>
  C8. The session identifier of every successful build is \<open>session_\<close>, the date, an
  underscore and the time of the resulting configuration, where a supplied date or time is
  taken as it is; so two builds that agree on date and time agree on the identifier. With
  timezone \<open>UTC\<close>, date \<open>2024-01-01\<close> and time \<open>12:00:00\<close>, when the home directory is known and
  the log directory can be created, the build succeeds with the identifier
  \<open>session_2024-01-01_12:00:00\<close> and a log directory that ends in \<open>logs/2024-01-01\<close>.
\<close>

theorem setupConfig_session_id:
  "(\<forall>c fs'. setupConfig E fs tz date timeStr = (Inr c, fs') \<longrightarrow>
      SessionID c = ''session_'' @ Date c @ ''_'' @ Time c \<and>
      (date \<noteq> [] \<longrightarrow> Date c = date) \<and> (timeStr \<noteq> [] \<longrightarrow> Time c = timeStr) \<and>
      (\<forall>E2 fs2 tz2 date2 time2 c2 fs2'.
          setupConfig E2 fs2 tz2 date2 time2 = (Inr c2, fs2') \<and>
          Date c2 = Date c \<and> Time c2 = Time c \<longrightarrow> SessionID c2 = SessionID c)) \<and>
   (\<forall>fs'. HOME E \<noteq> [] \<and>
      MkdirAll fs (Join [HOME E, ''.bashlog'', ''logs'', ''2024-01-01'']) = Inr fs' \<longrightarrow>
      (\<exists>c. setupConfig E fs ''UTC'' ''2024-01-01'' ''12:00:00'' = (Inr c, fs') \<and>
           SessionID c = ''session_2024-01-01_12:00:00'' \<and>
           suffix ''logs/2024-01-01'' (LogDir c)))"
proof (intro conjI allI impI)
  fix c fs'
  assume a: "setupConfig E fs tz date timeStr = (Inr c, fs')"
  show "SessionID c = ''session_'' @ Date c @ ''_'' @ Time c"
    by (rule setupConfig_Inr(1) [OF a])
  show "Date c = date" if "date \<noteq> []"
    by (rule setupConfig_Inr(2) [OF a that])
  show "Time c = timeStr" if "timeStr \<noteq> []"
    by (rule setupConfig_Inr(3) [OF a that])
  fix E2 :: "'b session_env" and fs2 tz2 date2 time2 c2 fs2'
  assume b: "setupConfig E2 fs2 tz2 date2 time2 = (Inr c2, fs2') \<and> Date c2 = Date c \<and> Time c2 = Time c"
  show "SessionID c2 = SessionID c"
    using setupConfig_Inr(1) [OF a] setupConfig_Inr(1) [of E2 fs2 tz2 date2 time2 c2 fs2'] b
    by simp
next
  fix fs'
  assume h: "HOME E \<noteq> [] \<and>
      MkdirAll fs (Join [HOME E, ''.bashlog'', ''logs'', ''2024-01-01'']) = Inr fs'"
  have "setupConfig E fs ''UTC'' ''2024-01-01'' ''12:00:00'' =
    (Inr \<lparr>Timezone = ''UTC'', Date = ''2024-01-01'', Time = ''12:00:00'',
          LogDir = Join [HOME E, ''.bashlog'', ''logs'', ''2024-01-01''],
          RCFile = Join [HOME E, ''.bashlog'', ''bashlog.rc''],
          SessionID = ''session_'' @ ''2024-01-01'' @ ''_'' @ ''12:00:00''\<rparr>, fs')"
    using setupConfig_explicit [OF _ _ conjunct1 [OF h] conjunct2 [OF h], of "''12:00:00''" "''UTC''"]
    by simp
  then show "\<exists>c. setupConfig E fs ''UTC'' ''2024-01-01'' ''12:00:00'' = (Inr c, fs') \<and>
           SessionID c = ''session_2024-01-01_12:00:00'' \<and>
           suffix ''logs/2024-01-01'' (LogDir c)"
    using logdir_suffix [of "HOME E"] h by simp
qed

theorem setupConfig_session_id_witness:
  "\<exists>c fs'. setupConfig sampleEnv homeFs ''UTC'' ''2024-01-01'' ''12:00:00'' = (Inr c, fs') \<and>
     SessionID c = ''session_2024-01-01_12:00:00'' \<and>
     LogDir c = ''/home/u/.bashlog/logs/2024-01-01'' \<and>
     suffix ''logs/2024-01-01'' (LogDir c)"
proof -
  have j: "Join [HOME sampleEnv, ''.bashlog'', ''logs'', ''2024-01-01''] = ''/home/u/.bashlog/logs/2024-01-01''"
    by (simp add: sampleEnv_def Clean_def cleanStep_def)
  have m: "HOME sampleEnv \<noteq> [] \<and> MkdirAll homeFs (Join [HOME sampleEnv, ''.bashlog'', ''logs'', ''2024-01-01''])
     = Inr (homeFs @ [(''/home/u/.bashlog'', Dir), (''/home/u/.bashlog/logs'', Dir),
        (''/home/u/.bashlog/logs/2024-01-01'', Dir)])"
    unfolding j by (simp add: sampleEnv_def homeFs_def MkdirAll_def ancestors_def)
  from setupConfig_session_id [of sampleEnv homeFs "''UTC''" "''2024-01-01''" "''12:00:00''"] m
  obtain c where c: "setupConfig sampleEnv homeFs ''UTC'' ''2024-01-01'' ''12:00:00'' =
      (Inr c, homeFs @ [(''/home/u/.bashlog'', Dir), (''/home/u/.bashlog/logs'', Dir),
        (''/home/u/.bashlog/logs/2024-01-01'', Dir)])"
    "SessionID c = ''session_2024-01-01_12:00:00''" "suffix ''logs/2024-01-01'' (LogDir c)"
    by blast
  have "LogDir c = ''/home/u/.bashlog/logs/2024-01-01''"
    using c(1) j
    by (auto simp: setupConfig_def defaultDate_def defaultTime_def finishConfig_def Let_def
      UserHomeDir_def sampleEnv_def split: sum.splits)
  with c show ?thesis by blast
qed

subsection \<open>Unfolding on concrete inputs\<close>

lemmas store_defs = threeStore_def bigStore_def gapStore_def blankStore_def emptyStore_def homeFs_def
  workspaceAt_def base_def
lemmas os_defs = ReadDir_def Stat_def ReadFile_def ancestors_def dirPrefix_def entryNames_def
lemmas str_defs = Clean_def cleanStep_def TrimSpace_def runeLen_def spaceRunes_def
  SplitN2_def index_def nl_def configFile_def
lemmas scan_defs = Sscanf_d_def isDigit_def decimal_def digitVal_def inInt64_def
lemmas show_defs = showInt_def showNat.simps digitChar_def padLeft_def
lemmas float_defs = float64_def divFloat64_def nearestFloat64_def roundEvenDiv_def bitlen.simps
  Let_def

subsection \<open>Scanning and floating point on concrete inputs\<close>

lemma Sscanf_d_underscore: "Sscanf_d ''1_000'' = Some 1" "Sscanf_d ''-1_0'' = Some (- 1)"
  by (simp_all add: scan_defs str_defs)

lemma average_12_3: "Sprintf_2f (divFloat64 (float64 12) (float64 3)) = ''4.00''"
proof -
  have f: "float64 12 = 12"
    by (simp add: float_defs)
  have g: "float64 3 = 3"
    by (simp add: float_defs)
  have d: "divFloat64 12 3 = (4503599627370496, - 50)"
    by (simp add: float_defs)
  have r: "roundEvenDiv (\<bar>4503599627370496\<bar> * 100 * 2 ^ nat (- 50)) (2 ^ nat (- (- 50))) = 400"
    by (simp add: roundEvenDiv_def Let_def)
  have s: "showNat (nat 400 div 100) = ''4''"
    by (simp add: show_defs)
  have z: "[digitChar (nat 400 div 10 mod 10), digitChar (nat 400 mod 10)] = ''00''"
    by (simp add: show_defs)
  show ?thesis
    unfolding f g d Sprintf_2f_def prod.case r Let_def s z by simp
qed

text \<open>The rounding of the conversion shows in the quotient: these two averages are the
  same rational number, and are printed differently.\<close>

lemma average_rounding:
  "Sprintf_2f (divFloat64 (float64 27021597764222979) (float64 3)) = ''9007199254740994.00''"
  "Sprintf_2f (divFloat64 (float64 9007199254740993) (float64 1)) = ''9007199254740992.00''"
proof -
  have f1: "float64 27021597764222979 = 27021597764222980"
    by (simp add: float_defs)
  have f2: "float64 3 = 3"
    by (simp add: float_defs)
  have f3: "float64 9007199254740993 = 9007199254740992"
    by (simp add: float_defs)
  have f4: "float64 1 = 1"
    by (simp add: float_defs)
  have d1: "divFloat64 27021597764222980 3 = (4503599627370497, 1)"
    by (simp add: float_defs)
  have d2: "divFloat64 9007199254740992 1 = (4503599627370496, 1)"
    by (simp add: float_defs)
  have r1: "roundEvenDiv (\<bar>4503599627370497\<bar> * 100 * 2 ^ nat 1) (2 ^ nat (- 1)) = 900719925474099400"
    by (simp add: roundEvenDiv_def Let_def)
  have r2: "roundEvenDiv (\<bar>4503599627370496\<bar> * 100 * 2 ^ nat 1) (2 ^ nat (- 1)) = 900719925474099200"
    by (simp add: roundEvenDiv_def Let_def)
  have s: "showNat (nat 900719925474099400 div 100) = ''9007199254740994''"
    by (simp add: show_defs)
  have t: "showNat (nat 900719925474099200 div 100) = ''9007199254740992''"
    by (simp add: show_defs)
  have z1: "[digitChar (nat 900719925474099400 div 10 mod 10), digitChar (nat 900719925474099400 mod 10)] = ''00''"
    by (simp add: show_defs)
  have z2: "[digitChar (nat 900719925474099200 div 10 mod 10), digitChar (nat 900719925474099200 mod 10)] = ''00''"
    by (simp add: show_defs)
  show "Sprintf_2f (divFloat64 (float64 27021597764222979) (float64 3)) = ''9007199254740994.00''"
    unfolding f1 f2 d1 Sprintf_2f_def prod.case r1 Let_def s z1 by simp
  show "Sprintf_2f (divFloat64 (float64 9007199254740993) (float64 1)) = ''9007199254740992.00''"
    unfolding f3 f4 d2 Sprintf_2f_def prod.case r2 Let_def t z2 by simp
qed

subsection \<open>Machine integers\<close>

lemma wrap64_id: "inInt64 x \<Longrightarrow> wrap64 x = x"
  by (simp add: wrap64_def inInt64_def)

lemma wrap_add_left: "((a + h) mod m - h + b + h) mod m = (a + b + h) mod m"
  for a :: int
proof -
  have "((a + h) mod m - h + b + h) mod m = ((a + h) mod m + b) mod m"
    by (simp add: algebra_simps)
  also have "\<dots> = (a + h + b) mod m"
    by (rule mod_add_left_eq)
  finally show ?thesis
    by (simp add: ac_simps)
qed

lemma wrap64_add_left: "wrap64 (wrap64 a + b) = wrap64 (a + b)"
  unfolding wrap64_def by (simp only: wrap_add_left)

lemma inInt64_wrap64: "inInt64 (wrap64 x)"
  by (simp add: wrap64_def inInt64_def)

subsection \<open>The workspaces of a store\<close>

lemma length_entryLoop: "length (entryLoop L fs b entries) = length (filter snd entries)"
  by (induction entries) (auto simp: Let_def)

lemma sum_list_insort_key: "sum_list (map g (insort_key f x xs)) = g x + sum_list (map g xs)"
  for g :: "'a \<Rightarrow> int"
  by (induction xs) auto

lemma sum_list_sort_key: "sum_list (map g (sort_key f xs)) = sum_list (map g xs)"
  for g :: "'a \<Rightarrow> int"
  by (induction xs) (auto simp: sum_list_insort_key)

lemma statsLoop_total:
  "inInt64 t \<Longrightarrow>
   fst (statsLoop wss (t, old, new)) = wrap64 (t + sum_list (map CommandCount wss))"
proof (induction wss arbitrary: t old new)
  case Nil
  then show ?case by (simp add: wrap64_id)
next
  case (Cons ws wss)
  have "fst (statsLoop (ws # wss) (t, old, new))
      = wrap64 (wrap64 (t + CommandCount ws) + sum_list (map CommandCount wss))"
    by (simp add: Cons.IH [OF inInt64_wrap64])
  also have "\<dots> = wrap64 (t + CommandCount ws + sum_list (map CommandCount wss))"
    by (rule wrap64_add_left)
  finally show ?case by (simp add: add.assoc)
qed

subsection \<open>Statistics\<close>

lemma handleStats_empty:
  assumes "getWorkspaces L fs b = Inr []"
  shows "handleStats L fs b args =
    \<lparr>stdout = [''No workspaces found'' @ [nl]], stderr = [], status = Returned, fsys = fs\<rparr>"
  using assms by (simp add: handleStats_def)

lemma getWorkspaces_empty:
  "getWorkspaces L fs b = Inr [] \<longleftrightarrow>
     ReadDir fs b = Inl ENOENT \<or> (\<exists>entries. ReadDir fs b = Inr entries \<and> filter snd entries = [])"
proof -
  have "sort_key f xs = [] \<longleftrightarrow> xs = []" for f :: "Workspace \<Rightarrow> int" and xs
    using length_sort [of f xs] by (metis length_0_conv)
  moreover have "entryLoop L fs b entries = [] \<longleftrightarrow> filter snd entries = []" for entries
    using length_entryLoop [of L fs b entries] by (metis length_0_conv)
  ultimately show ?thesis
    by (auto simp: getWorkspaces_def split: sum.splits)
qed

text \<open>
  C2, as stated, fails: over a store with no workspace, \<open>handleStats\<close> writes its one line
  to the standard output, nothing to the error stream, and returns, so that the program
  ends with status 0.
\<close>

theorem handleStats_empty_counterexample:
  "handleStats sampleLib emptyStore base [] =
     \<lparr>stdout = [''No workspaces found'' @ [nl]], stderr = [], status = Returned,
      fsys = emptyStore\<rparr> \<and>
   exitCode (status (handleStats sampleLib emptyStore base [])) = 0"
proof -
  have "ReadDir emptyStore base = Inr []"
    by (simp add: store_defs os_defs)
  then have "getWorkspaces sampleLib emptyStore base = Inr []"
    by (simp add: getWorkspaces_def)
  then show ?thesis
    by (simp add: handleStats_empty exitCode_def)
qed

text \<open>
  C2, amended. When the store has no workspace (the base directory does not exist, or none
  of its entries is a directory), \<open>handleStats\<close> prints the single line
  \<open>No workspaces found\<close> on the standard output, prints nothing on the error stream, leaves
  the file system as it is and ends with status 0.
\<close>

theorem handleStats_no_workspaces:
  "(ReadDir fs b = Inl ENOENT \<or> (\<exists>entries. ReadDir fs b = Inr entries \<and> filter snd entries = []))
   \<longrightarrow> handleStats L fs b args =
         \<lparr>stdout = [''No workspaces found'' @ [nl]], stderr = [], status = Returned, fsys = fs\<rparr>
       \<and> exitCode (status (handleStats L fs b args)) = 0"
  using handleStats_empty [of L fs b args] getWorkspaces_empty [of L fs b]
  by (auto simp: exitCode_def)

theorem handleStats_no_workspaces_witness:
  "handleStats sampleLib homeFs base [] =
     \<lparr>stdout = [''No workspaces found'' @ [nl]], stderr = [], status = Returned, fsys = homeFs\<rparr>
   \<and> exitCode (status (handleStats sampleLib homeFs base [])) = 0"
proof -
  have "ReadDir homeFs base = Inl ENOENT"
    by (simp add: store_defs os_defs)
  then show ?thesis
    using handleStats_no_workspaces [of homeFs base sampleLib "[]"] by (simp add: exitCode_def)
qed

lemma handleStats_nonempty:
  assumes rd: "ReadDir fs b = Inr entries" and ne: "filter snd entries \<noteq> []"
    and tot: "tot = wrap64 (sum_list (map CommandCount (entryLoop L fs b entries)))"
  shows "take 4 (stdout (handleStats L fs b args)) =
           [[nl] @ ''=== Workspace Statistics ==='' @ [nl],
            ''Total Workspaces: '' @ showNat (length (filter snd entries)) @ [nl],
            ''Total Commands Logged: '' @ showInt tot @ [nl],
            ''Average Commands per Workspace: ''
              @ Sprintf_2f (divFloat64 (float64 tot) (float64 (int (length (filter snd entries)))))
              @ [nl]]
         \<and> stderr (handleStats L fs b args) = []
         \<and> status (handleStats L fs b args) = Returned
         \<and> fsys (handleStats L fs b args) = fs"
proof -
  define wss where "wss = entryLoop L fs b entries"
  define srt where "srt = sort_key (\<lambda>ws. - CreatedAt ws) wss"
  have gw: "getWorkspaces L fs b = Inr srt"
    by (simp add: getWorkspaces_def rd srt_def wss_def)
  have len: "length srt = length (filter snd entries)"
    by (simp add: srt_def wss_def length_entryLoop)
  then have pos: "length srt \<noteq> 0" "0 < length srt"
    using ne by simp_all
  obtain t old new where sl: "statsLoop srt (0, srt ! 0, srt ! 0) = (t, old, new)"
    by (cases "statsLoop srt (0, srt ! 0, srt ! 0)") blast
  have "t = fst (statsLoop srt (0, srt ! 0, srt ! 0))"
    by (simp add: sl)
  also have "\<dots> = wrap64 (0 + sum_list (map CommandCount srt))"
    by (rule statsLoop_total) (simp add: inInt64_def)
  also have "\<dots> = tot"
    by (simp add: tot srt_def wss_def sum_list_sort_key)
  finally have t: "t = tot" .
  show ?thesis
    using pos by (simp add: handleStats_def gw sl t len)
qed

lemma handleStats_no_panic:
  "status (handleStats L fs b args) \<noteq> Panic"
  by (auto simp: handleStats_def failWith_def split: sum.splits prod.splits)

lemma bigEntries: "ReadDir bigStore base = Inr [(''p'', True), (''q'', True)]"
  by (simp add: store_defs os_defs)

lemma bigLoop: "map CommandCount (entryLoop sampleLib bigStore base [(''p'', True), (''q'', True)])
    = [9223372036854775807, 1]"
  by (simp add: store_defs os_defs str_defs scan_defs readConfig_def)

lemma threeEntries: "ReadDir threeStore base = Inr [(''alpha'', True), (''beta'', True), (''gamma'', True)]"
  by (simp add: store_defs os_defs)

lemma threeLoop: "map CommandCount (entryLoop sampleLib threeStore base [(''alpha'', True), (''beta'', True), (''gamma'', True)])
    = [2, 4, 6]"
  by (simp add: store_defs os_defs str_defs scan_defs readConfig_def)

text \<open>
  C7, as stated, fails where the sum of the command counts leaves the range of \<open>int\<close>: the
  running total wraps around. Over two workspaces with the counts 9223372036854775807 and
  1, the total reported is -9223372036854775808.
\<close>

theorem handleStats_overflow_counterexample:
  "map CommandCount (entryLoop sampleLib bigStore base [(''p'', True), (''q'', True)])
     = [9223372036854775807, 1] \<and>
   take 3 (stdout (handleStats sampleLib bigStore base [])) =
     [[nl] @ ''=== Workspace Statistics ==='' @ [nl],
      ''Total Workspaces: 2'' @ [nl],
      ''Total Commands Logged: -9223372036854775808'' @ [nl]]"
proof -
  have f: "filter snd [(''p'', True), (''q'', True)] \<noteq> []"
    by simp
  have t: "- 9223372036854775808 =
      wrap64 (sum_list (map CommandCount (entryLoop sampleLib bigStore base [(''p'', True), (''q'', True)])))"
    by (simp only: bigLoop) (simp add: wrap64_def)
  have n: "length (filter snd [(''p'', True), (''q'', True)]) = 2"
    by simp
  have s2: "showNat 2 = ''2''"
    by (simp add: show_defs)
  have si: "showInt (- 9223372036854775808) = ''-9223372036854775808''"
    by (simp add: show_defs)
  note r = handleStats_nonempty [OF bigEntries f t, of "[]", unfolded n s2 si]
  have "take 3 (take 4 (stdout (handleStats sampleLib bigStore base []))) =
           [[nl] @ ''=== Workspace Statistics ==='' @ [nl],
            ''Total Workspaces: 2'' @ [nl],
            ''Total Commands Logged: -9223372036854775808'' @ [nl]]"
    by (simp only: conjunct1 [OF r]) simp
  then have tk: "take 3 (stdout (handleStats sampleLib bigStore base [])) =
           [[nl] @ ''=== Workspace Statistics ==='' @ [nl],
            ''Total Workspaces: 2'' @ [nl],
            ''Total Commands Logged: -9223372036854775808'' @ [nl]]"
    by simp
  show ?thesis
    by (rule conjI [OF bigLoop tk])
qed

text \<open>
  C7, amended. Over a store with at least one workspace, \<open>handleStats\<close> reports as the
  number of workspaces the number of directories in the base directory, as the total the
  sum of their command counts in 64-bit wrap-around arithmetic (the sum itself whenever it
  lies in the range of \<open>int64\<close>), and as the average the \<open>float64\<close> quotient of that total
  by that number, printed with two decimals, and it returns. With the counts 2, 4 and 6 the
  total is 12 and the average is printed as 4.00. Over a store without workspaces it prints
  the line
  \<open>No workspaces found\<close>; no run of \<open>handleStats\<close> ends in a panic.
\<close>

theorem handleStats_report:
  "(\<forall>entries. ReadDir fs b = Inr entries \<and> filter snd entries \<noteq> [] \<longrightarrow>
      (let wss = entryLoop L fs b entries;
           n = length (filter snd entries);
           tot = wrap64 (sum_list (map CommandCount wss))
       in length wss = n \<and>
          take 4 (stdout (handleStats L fs b args)) =
            [[nl] @ ''=== Workspace Statistics ==='' @ [nl],
             ''Total Workspaces: '' @ showNat n @ [nl],
             ''Total Commands Logged: '' @ showInt tot @ [nl],
             ''Average Commands per Workspace: ''
               @ Sprintf_2f (divFloat64 (float64 tot) (float64 (int n))) @ [nl]] \<and>
          status (handleStats L fs b args) = Returned \<and>
          (inInt64 (sum_list (map CommandCount wss)) \<longrightarrow> tot = sum_list (map CommandCount wss)) \<and>
          (map CommandCount wss = [2, 4, 6] \<longrightarrow>
             take 2 (drop 2 (stdout (handleStats L fs b args))) =
               [''Total Commands Logged: 12'' @ [nl],
                ''Average Commands per Workspace: 4.00'' @ [nl]]))) \<and>
   (getWorkspaces L fs b = Inr [] \<longrightarrow>
      handleStats L fs b args =
        \<lparr>stdout = [''No workspaces found'' @ [nl]], stderr = [], status = Returned, fsys = fs\<rparr>) \<and>
   status (handleStats L fs b args) \<noteq> Panic"
proof (intro conjI allI impI)
  fix entries
  assume a: "ReadDir fs b = Inr entries \<and> filter snd entries \<noteq> []"
  define wss where "wss = entryLoop L fs b entries"
  define n where "n = length (filter snd entries)"
  define tot where "tot = wrap64 (sum_list (map CommandCount wss))"
  note ne = handleStats_nonempty [OF conjunct1 [OF a] conjunct2 [OF a], of tot L args,
      unfolded wss_def [symmetric] n_def [symmetric], OF tot_def]
  have len: "length wss = n"
    by (simp add: wss_def n_def length_entryLoop)
  have ex: "take 2 (drop 2 (stdout (handleStats L fs b args))) =
               [''Total Commands Logged: 12'' @ [nl],
                ''Average Commands per Workspace: 4.00'' @ [nl]]"
    if c: "map CommandCount wss = [2, 4, 6]"
  proof -
    have "n = 3" using len [symmetric] c by (metis length_map length_Cons list.size(3) numeral_3_eq_3)
    moreover have "tot = 12" by (simp add: tot_def c wrap64_def)
    moreover have "take 2 (drop 2 (stdout (handleStats L fs b args)))
        = take 2 (drop 2 (take 4 (stdout (handleStats L fs b args))))"
      by (simp add: take_drop)
    ultimately show ?thesis
      using ne by (simp add: show_defs average_12_3)
  qed
  show "let wss = entryLoop L fs b entries;
           n = length (filter snd entries);
           tot = wrap64 (sum_list (map CommandCount wss))
       in length wss = n \<and>
          take 4 (stdout (handleStats L fs b args)) =
            [[nl] @ ''=== Workspace Statistics ==='' @ [nl],
             ''Total Workspaces: '' @ showNat n @ [nl],
             ''Total Commands Logged: '' @ showInt tot @ [nl],
             ''Average Commands per Workspace: ''
               @ Sprintf_2f (divFloat64 (float64 tot) (float64 (int n))) @ [nl]] \<and>
          status (handleStats L fs b args) = Returned \<and>
          (inInt64 (sum_list (map CommandCount wss)) \<longrightarrow> tot = sum_list (map CommandCount wss)) \<and>
          (map CommandCount wss = [2, 4, 6] \<longrightarrow>
             take 2 (drop 2 (stdout (handleStats L fs b args))) =
               [''Total Commands Logged: 12'' @ [nl],
                ''Average Commands per Workspace: 4.00'' @ [nl]])"
    unfolding Let_def wss_def [symmetric] n_def [symmetric] tot_def [symmetric]
    using len ne ex by (simp add: tot_def wrap64_id)
next
  assume "getWorkspaces L fs b = Inr []"
  then show "handleStats L fs b args =
        \<lparr>stdout = [''No workspaces found'' @ [nl]], stderr = [], status = Returned, fsys = fs\<rparr>"
    by (rule handleStats_empty)
next
  show "status (handleStats L fs b args) \<noteq> Panic"
    by (rule handleStats_no_panic)
qed

theorem handleStats_report_witness:
  "take 4 (stdout (handleStats sampleLib threeStore base [])) =
     [[nl] @ ''=== Workspace Statistics ==='' @ [nl],
      ''Total Workspaces: 3'' @ [nl],
      ''Total Commands Logged: 12'' @ [nl],
      ''Average Commands per Workspace: 4.00'' @ [nl]] \<and>
   status (handleStats sampleLib threeStore base []) = Returned"
proof -
  have f: "filter snd [(''alpha'', True), (''beta'', True), (''gamma'', True)] \<noteq> []"
    by simp
  have fl: "Sprintf_2f (divFloat64 (float64 12) (float64 (int 3))) = ''4.00''"
    using average_12_3 by simp
  have n: "length (filter snd [(''alpha'', True), (''beta'', True), (''gamma'', True)]) = 3"
    by simp
  have w: "wrap64 (sum_list [2, 4, 6]) = 12"
    by (simp add: wrap64_def)
  have s3: "showNat 3 = ''3''"
    by (simp add: show_defs)
  have s12: "showInt 12 = ''12''"
    by (simp add: show_defs)
  note r = handleStats_report [of threeStore base sampleLib "[]", THEN conjunct1, THEN spec,
      THEN mp, OF conjI [OF threeEntries f], unfolded Let_def threeLoop n w fl s3 s12]
  have a: "take 4 (stdout (handleStats sampleLib threeStore base [])) =
     [[nl] @ ''=== Workspace Statistics ==='' @ [nl],
      ''Total Workspaces: 3'' @ [nl],
      ''Total Commands Logged: 12'' @ [nl],
      ''Average Commands per Workspace: 4.00'' @ [nl]]"
    using r [THEN conjunct2, THEN conjunct1] by (simp add: n w fl s3 s12)
  have b: "status (handleStats sampleLib threeStore base []) = Returned"
    using r [THEN conjunct2, THEN conjunct2, THEN conjunct1] by simp
  show ?thesis
    by (rule conjI [OF a b])
qed

subsection \<open>Creating a workspace\<close>

lemma base_join: "Join [base, name] = Clean (base @ CHR ''/'' # name)"
  by (simp add: base_def)

lemma statAlpha: "Stat threeStore (Join [base, ''alpha'']) = Inr Dir"
  by (simp add: store_defs os_defs str_defs)

lemma handleCreate_fresh:
  assumes "isValidName name" and "Stat fs (Join [b, name]) = Inl e"
    and "MkdirAll fs (Join [b, name]) = Inr fs1"
    and "WriteFile fs1 (Join [Join [b, name], configFile])
           (''name='' @ name @ [nl] @ ''created='' @ nowRFC3339 L @ [nl] @ ''commands=0'' @ [nl]) = Inr fs2"
    and "WriteFile fs2 (Join [Join [b, name], ''history.log'']) [] = Inr fs3"
  shows "handleCreate L fs b (name # rest) =
    \<lparr>stdout = [checkMark @ '' Workspace '' @ quoted name @ '' created successfully at ''
                @ Join [b, name] @ [nl]],
     stderr = [], status = Returned, fsys = fs3\<rparr>"
  using assms by (simp add: handleCreate_def Let_def del: Join.simps)

lemma pathDelta: "Join [base, ''delta''] = ''/home/u/.bashlog-workspaces/delta''"
  by (simp add: base_def str_defs)

lemma pathDeltaConfig: "Join [''/home/u/.bashlog-workspaces/delta'', configFile]
    = ''/home/u/.bashlog-workspaces/delta/config.txt''"
  by (simp add: str_defs)

lemma pathDeltaHistory: "Join [''/home/u/.bashlog-workspaces/delta'', ''history.log'']
    = ''/home/u/.bashlog-workspaces/delta/history.log''"
  by (simp add: str_defs)

lemma statDelta: "Stat emptyStore ''/home/u/.bashlog-workspaces/delta'' = Inl ENOENT"
  by (simp add: store_defs os_defs)

lemma mkdirDelta: "MkdirAll emptyStore ''/home/u/.bashlog-workspaces/delta''
    = Inr (emptyStore @ [(''/home/u/.bashlog-workspaces/delta'', Dir)])"
  by (simp add: store_defs MkdirAll_def ancestors_def)

lemma writeDeltaConfig:
  "WriteFile (emptyStore @ [(''/home/u/.bashlog-workspaces/delta'', Dir)])
     ''/home/u/.bashlog-workspaces/delta/config.txt'' d
   = Inr ((''/home/u/.bashlog-workspaces/delta/config.txt'', File d)
          # emptyStore @ [(''/home/u/.bashlog-workspaces/delta'', Dir)])"
  by (simp add: store_defs WriteFile_def ancestors_def)

lemma writeDeltaHistory:
  "WriteFile ((''/home/u/.bashlog-workspaces/delta/config.txt'', File d)
          # emptyStore @ [(''/home/u/.bashlog-workspaces/delta'', Dir)])
     ''/home/u/.bashlog-workspaces/delta/history.log'' []
   = Inr ((''/home/u/.bashlog-workspaces/delta/history.log'', File [])
          # (''/home/u/.bashlog-workspaces/delta/config.txt'', File d)
          # emptyStore @ [(''/home/u/.bashlog-workspaces/delta'', Dir)])"
  by (simp add: store_defs WriteFile_def ancestors_def)

text \<open>
  C6. For every valid name whose workspace path already exists, \<open>handleCreate\<close> fails with
  the error \<open>already exists\<close> and status 1, prints nothing on the standard output and leaves
  the file system exactly as it was: no directory is created, no configuration file is
  written, no history file is written or truncated. The name is checked before the file
  system is touched, so a run on an existing path changes nothing whatever the name is. By
  contrast, for a valid name whose path does not exist, the directory and the two files are
  made, where the file system allows.
\<close>

theorem handleCreate_existing:
  "(isValidName name \<and> Stat fs (Join [b, name]) = Inr info \<longrightarrow>
     handleCreate L fs b (name # rest) =
       \<lparr>stdout = [],
        stderr = [''Error: workspace '' @ quoted name @ '' already exists'' @ [nl]],
        status = Exit 1, fsys = fs\<rparr>) \<and>
   (Stat fs (Join [b, name]) = Inr info \<longrightarrow>
     stdout (handleCreate L fs b (name # rest)) = [] \<and>
     status (handleCreate L fs b (name # rest)) = Exit 1 \<and>
     fsys (handleCreate L fs b (name # rest)) = fs) \<and>
   (isValidName name \<and> Stat fs (Join [b, name]) = Inl e \<and>
    MkdirAll fs (Join [b, name]) = Inr fs1 \<and>
    WriteFile fs1 (Join [Join [b, name], configFile])
      (''name='' @ name @ [nl] @ ''created='' @ nowRFC3339 L @ [nl] @ ''commands=0'' @ [nl]) = Inr fs2 \<and>
    WriteFile fs2 (Join [Join [b, name], ''history.log'']) [] = Inr fs3 \<longrightarrow>
     status (handleCreate L fs b (name # rest)) = Returned \<and>
     fsys (handleCreate L fs b (name # rest)) = fs3)"
proof (intro conjI impI)
  assume a: "isValidName name \<and> Stat fs (Join [b, name]) = Inr info"
  then show "handleCreate L fs b (name # rest) =
       \<lparr>stdout = [],
        stderr = [''Error: workspace '' @ quoted name @ '' already exists'' @ [nl]],
        status = Exit 1, fsys = fs\<rparr>"
    by (simp add: handleCreate_def failWith_def Let_def del: Join.simps)
next
  assume st: "Stat fs (Join [b, name]) = Inr info"
  have r: "handleCreate L fs b (name # rest) =
       failWith fs []
         (if isValidName name
          then [''Error: workspace '' @ quoted name @ '' already exists'' @ [nl]]
          else [''Error: invalid workspace name '' @ quoted name @ [nl],
                ''Names must contain only alphanumeric characters, hyphens, and underscores'' @ [nl]])"
  proof (cases "isValidName name")
    case True
    then show ?thesis
      using st by (simp add: handleCreate_def Let_def del: Join.simps)
  next
    case False
    then show ?thesis
      by (simp add: handleCreate_def)
  qed
  show "stdout (handleCreate L fs b (name # rest)) = []"
    unfolding r by (simp add: failWith_def)
  show "status (handleCreate L fs b (name # rest)) = Exit 1"
    unfolding r by (simp add: failWith_def)
  show "fsys (handleCreate L fs b (name # rest)) = fs"
    unfolding r by (simp add: failWith_def)
next
  assume a: "isValidName name \<and> Stat fs (Join [b, name]) = Inl e \<and>
    MkdirAll fs (Join [b, name]) = Inr fs1 \<and>
    WriteFile fs1 (Join [Join [b, name], configFile])
      (''name='' @ name @ [nl] @ ''created='' @ nowRFC3339 L @ [nl] @ ''commands=0'' @ [nl]) = Inr fs2 \<and>
    WriteFile fs2 (Join [Join [b, name], ''history.log'']) [] = Inr fs3"
  then have r: "handleCreate L fs b (name # rest) =
    \<lparr>stdout = [checkMark @ '' Workspace '' @ quoted name @ '' created successfully at ''
                @ Join [b, name] @ [nl]],
     stderr = [], status = Returned, fsys = fs3\<rparr>"
    by (intro handleCreate_fresh) blast+
  show "status (handleCreate L fs b (name # rest)) = Returned"
    unfolding r by simp
  show "fsys (handleCreate L fs b (name # rest)) = fs3"
    unfolding r by simp
qed

theorem handleCreate_existing_witness:
  "handleCreate sampleLib threeStore base [''alpha''] =
     \<lparr>stdout = [], stderr = [''Error: workspace '' @ quoted ''alpha'' @ '' already exists'' @ [nl]],
      status = Exit 1, fsys = threeStore\<rparr> \<and>
   status (handleCreate sampleLib emptyStore base [''delta'']) = Returned \<and>
   fsys (handleCreate sampleLib emptyStore base [''delta'']) =
     (''/home/u/.bashlog-workspaces/delta/history.log'', File [])
     # (''/home/u/.bashlog-workspaces/delta/config.txt'',
        File (''name=delta'' @ [nl] @ ''created=2024-01-04T00:00:00Z'' @ [nl] @ ''commands=0'' @ [nl]))
     # emptyStore @ [(''/home/u/.bashlog-workspaces/delta'', Dir)]"
proof -
  have v: "isValidName ''alpha''" "isValidName ''delta''"
    by (simp_all add: isValidName_def validChar_def)
  have now: "nowRFC3339 sampleLib = ''2024-01-04T00:00:00Z''"
    by (simp add: sampleLib_def)
  have a: "handleCreate sampleLib threeStore base [''alpha''] =
     \<lparr>stdout = [], stderr = [''Error: workspace '' @ quoted ''alpha'' @ '' already exists'' @ [nl]],
      status = Exit 1, fsys = threeStore\<rparr>"
    by (rule handleCreate_existing [where fs = threeStore and b = base and name = "''alpha''"
          and L = sampleLib and rest = "[]", THEN conjunct1, THEN mp, OF conjI [OF v(1) statAlpha]])
  have pre: "isValidName ''delta'' \<and> Stat emptyStore (Join [base, ''delta'']) = Inl ENOENT \<and>
    MkdirAll emptyStore (Join [base, ''delta''])
      = Inr (emptyStore @ [(''/home/u/.bashlog-workspaces/delta'', Dir)]) \<and>
    WriteFile (emptyStore @ [(''/home/u/.bashlog-workspaces/delta'', Dir)])
      (Join [Join [base, ''delta''], configFile])
      (''name='' @ ''delta'' @ [nl] @ ''created='' @ nowRFC3339 sampleLib @ [nl] @ ''commands=0'' @ [nl])
      = Inr ((''/home/u/.bashlog-workspaces/delta/config.txt'',
              File (''name='' @ ''delta'' @ [nl] @ ''created='' @ nowRFC3339 sampleLib @ [nl]
                    @ ''commands=0'' @ [nl]))
             # emptyStore @ [(''/home/u/.bashlog-workspaces/delta'', Dir)]) \<and>
    WriteFile ((''/home/u/.bashlog-workspaces/delta/config.txt'',
              File (''name='' @ ''delta'' @ [nl] @ ''created='' @ nowRFC3339 sampleLib @ [nl]
                    @ ''commands=0'' @ [nl]))
             # emptyStore @ [(''/home/u/.bashlog-workspaces/delta'', Dir)])
      (Join [Join [base, ''delta''], ''history.log'']) []
      = Inr ((''/home/u/.bashlog-workspaces/delta/history.log'', File [])
          # (''/home/u/.bashlog-workspaces/delta/config.txt'',
              File (''name='' @ ''delta'' @ [nl] @ ''created='' @ nowRFC3339 sampleLib @ [nl]
                    @ ''commands=0'' @ [nl]))
          # emptyStore @ [(''/home/u/.bashlog-workspaces/delta'', Dir)])"
    unfolding pathDelta pathDeltaConfig pathDeltaHistory
    by (intro conjI v(2) statDelta mkdirDelta writeDeltaConfig writeDeltaHistory)
  note c = handleCreate_existing [where fs = emptyStore and b = base and name = "''delta''"
      and L = sampleLib and rest = "[]", THEN conjunct2, THEN conjunct2, THEN mp, OF pre]
  have d: "fsys (handleCreate sampleLib emptyStore base [''delta'']) =
     (''/home/u/.bashlog-workspaces/delta/history.log'', File [])
     # (''/home/u/.bashlog-workspaces/delta/config.txt'',
        File (''name=delta'' @ [nl] @ ''created=2024-01-04T00:00:00Z'' @ [nl] @ ''commands=0'' @ [nl]))
     # emptyStore @ [(''/home/u/.bashlog-workspaces/delta'', Dir)]"
    unfolding conjunct2 [OF c] now by simp
  show ?thesis
    by (intro conjI a conjunct1 [OF c] d)
qed

subsection \<open>Deleting a workspace\<close>

lemma nl_in_ToLower: "nl \<in> set s \<Longrightarrow> nl \<in> set (ToLower s)"
proof -
  have "lowerChar nl = nl"
    by (simp add: lowerChar_def nl_def)
  then show "nl \<in> set s \<Longrightarrow> nl \<in> set (ToLower s)"
    by (force simp: ToLower_def)
qed

lemma ReadString_line: "nl \<notin> set ans \<Longrightarrow> ReadString (ans @ nl # tail) nl = ans @ [nl]"
  by (induction ans) (auto simp: ReadString_def)

lemma ToLower_append: "ToLower (a @ b) = ToLower a @ ToLower b"
  by (simp add: ToLower_def)

lemma answer_yes:
  assumes "ToLower ans = ''yes'' \<or> ToLower ans = ''y''"
  shows "TrimSpace (ToLower (ReadString (ans @ nl # tail) nl)) = ToLower ans"
proof -
  have "nl \<notin> set (ToLower ans)"
    using assms by (auto simp: nl_def)
  then have "nl \<notin> set ans"
    using nl_in_ToLower by blast
  then have "ToLower (ReadString (ans @ nl # tail) nl) = ToLower ans @ [nl]"
    by (simp add: ReadString_line ToLower_append) (simp add: ToLower_def lowerChar_def nl_def)
  moreover have "TrimSpace (''yes'' @ [nl]) = ''yes''" "TrimSpace (''y'' @ [nl]) = ''y''"
    by (simp_all add: str_defs)
  ultimately show ?thesis
    using assms by auto
qed

lemma answer_empty:
  "TrimSpace (ToLower (ReadString [] nl)) = []"
  "TrimSpace (ToLower (ReadString (nl # tail) nl)) = []"
  by (simp_all add: ReadString_def ToLower_def lowerChar_def str_defs)

lemma RemoveAll_gone: "RemoveAll fs p = Inr fs' \<Longrightarrow> map_of fs' p = None"
  by (auto simp: RemoveAll_def map_of_eq_None_iff split: if_splits)

lemma Stat_gone: "map_of fs p = None \<Longrightarrow> \<exists>e. Stat fs p = Inl e"
  by (simp add: Stat_def split: option.splits)

lemma handleDelete_cancelled:
  assumes "Stat fs (Join [b, name]) = Inr info"
    and "TrimSpace (ToLower (ReadString stdin nl)) \<noteq> ''yes''"
    and "TrimSpace (ToLower (ReadString stdin nl)) \<noteq> ''y''"
  shows "handleDelete fs stdin b (name # rest) =
    \<lparr>stdout = [''Are you sure you want to delete workspace '' @ quoted name @ ''? (yes/no): '',
                ''Deletion cancelled'' @ [nl]],
     stderr = [], status = Returned, fsys = fs\<rparr>"
  using assms by (simp add: handleDelete_def Let_def del: Join.simps)

lemma handleDelete_confirmed:
  assumes "Stat fs (Join [b, name]) = Inr info"
    and "TrimSpace (ToLower (ReadString stdin nl)) = ''yes''
         \<or> TrimSpace (ToLower (ReadString stdin nl)) = ''y''"
  shows "handleDelete fs stdin b (name # rest) =
    (case RemoveAll fs (Join [b, name]) of
       Inl e \<Rightarrow>
         failWith fs [''Are you sure you want to delete workspace '' @ quoted name @ ''? (yes/no): '']
           [''Error deleting workspace: '' @ pathError ''RemoveAll'' (Join [b, name]) e @ [nl]]
     | Inr fs' \<Rightarrow>
         \<lparr>stdout = [''Are you sure you want to delete workspace '' @ quoted name @ ''? (yes/no): '',
                     checkMark @ '' Workspace '' @ quoted name @ '' deleted successfully'' @ [nl]],
          stderr = [], status = Returned, fsys = fs'\<rparr>)"
  using assms by (auto simp: handleDelete_def Let_def failWith_def simp del: Join.simps split: sum.splits)

text \<open>
  C10. For an existing workspace, \<open>handleDelete\<close> reads one line of the standard input,
  lowers its letters and trims its white space, and deletes exactly when the result is
  \<open>yes\<close> or \<open>y\<close>: then \<open>os.RemoveAll\<close> runs, and when it succeeds the workspace path is
  gone. Every other answer gives \<open>Deletion cancelled\<close>, leaves the file system as it was,
  the workspace in place, and ends with status 0. An answer that is \<open>yes\<close> or \<open>y\<close> in any
  letter case confirms; an empty line and the end of the input cancel.
\<close>

theorem handleDelete_confirmation:
  "(Stat fs (Join [b, name]) = Inr info \<longrightarrow>
     (let wsPath = Join [b, name];
          prompt = ''Are you sure you want to delete workspace '' @ quoted name @ ''? (yes/no): '';
          response = TrimSpace (ToLower (ReadString stdin nl));
          r = handleDelete fs stdin b (name # rest)
      in (response \<noteq> ''yes'' \<and> response \<noteq> ''y'' \<longrightarrow>
            r = \<lparr>stdout = [prompt, ''Deletion cancelled'' @ [nl]], stderr = [],
                 status = Returned, fsys = fs\<rparr> \<and>
            exitCode (status r) = 0 \<and> Stat (fsys r) wsPath = Inr info) \<and>
         (response = ''yes'' \<or> response = ''y'' \<longrightarrow>
            (case RemoveAll fs wsPath of
               Inl e \<Rightarrow> status r = Exit 1 \<and> fsys r = fs
             | Inr fs' \<Rightarrow>
                 r = \<lparr>stdout = [prompt, checkMark @ '' Workspace '' @ quoted name
                                    @ '' deleted successfully'' @ [nl]],
                      stderr = [], status = Returned, fsys = fs'\<rparr> \<and>
                 (\<exists>e. Stat (fsys r) wsPath = Inl e))))) \<and>
   (\<forall>ans tail. ToLower ans = ''yes'' \<or> ToLower ans = ''y'' \<longrightarrow>
      TrimSpace (ToLower (ReadString (ans @ nl # tail) nl)) = ToLower ans) \<and>
   TrimSpace (ToLower (ReadString [] nl)) = [] \<and>
   (\<forall>tail. TrimSpace (ToLower (ReadString (nl # tail) nl)) = [])"
proof (intro conjI allI impI)
  assume st: "Stat fs (Join [b, name]) = Inr info"
  define response where "response = TrimSpace (ToLower (ReadString stdin nl))"
  define r where "r = handleDelete fs stdin b (name # rest)"
  define prompt where
    "prompt = ''Are you sure you want to delete workspace '' @ quoted name @ ''? (yes/no): ''"
  have no: "r = \<lparr>stdout = [prompt, ''Deletion cancelled'' @ [nl]], stderr = [],
                 status = Returned, fsys = fs\<rparr> \<and>
            exitCode (status r) = 0 \<and> Stat (fsys r) (Join [b, name]) = Inr info"
    if "response \<noteq> ''yes'' \<and> response \<noteq> ''y''"
    using handleDelete_cancelled [OF st, of stdin rest] that st
    by (simp add: response_def r_def prompt_def exitCode_def del: Join.simps)
  have yes: "case RemoveAll fs (Join [b, name]) of
               Inl e \<Rightarrow> status r = Exit 1 \<and> fsys r = fs
             | Inr fs' \<Rightarrow>
                 r = \<lparr>stdout = [prompt, checkMark @ '' Workspace '' @ quoted name
                                    @ '' deleted successfully'' @ [nl]],
                      stderr = [], status = Returned, fsys = fs'\<rparr> \<and>
                 (\<exists>e. Stat (fsys r) (Join [b, name]) = Inl e)"
    if "response = ''yes'' \<or> response = ''y''"
  proof (cases "RemoveAll fs (Join [b, name])")
    case (Inl e)
    then show ?thesis
      using handleDelete_confirmed [OF st, of stdin rest] that
      by (simp add: response_def r_def failWith_def del: Join.simps)
  next
    case (Inr fs')
    then show ?thesis
      using handleDelete_confirmed [OF st, of stdin rest] that
        Stat_gone [OF RemoveAll_gone [OF Inr]]
      by (simp add: response_def r_def prompt_def del: Join.simps)
  qed
  show "let wsPath = Join [b, name];
          prompt = ''Are you sure you want to delete workspace '' @ quoted name @ ''? (yes/no): '';
          response = TrimSpace (ToLower (ReadString stdin nl));
          r = handleDelete fs stdin b (name # rest)
      in (response \<noteq> ''yes'' \<and> response \<noteq> ''y'' \<longrightarrow>
            r = \<lparr>stdout = [prompt, ''Deletion cancelled'' @ [nl]], stderr = [],
                 status = Returned, fsys = fs\<rparr> \<and>
            exitCode (status r) = 0 \<and> Stat (fsys r) wsPath = Inr info) \<and>
         (response = ''yes'' \<or> response = ''y'' \<longrightarrow>
            (case RemoveAll fs wsPath of
               Inl e \<Rightarrow> status r = Exit 1 \<and> fsys r = fs
             | Inr fs' \<Rightarrow>
                 r = \<lparr>stdout = [prompt, checkMark @ '' Workspace '' @ quoted name
                                    @ '' deleted successfully'' @ [nl]],
                      stderr = [], status = Returned, fsys = fs'\<rparr> \<and>
                 (\<exists>e. Stat (fsys r) wsPath = Inl e)))"
    unfolding Let_def response_def [symmetric] r_def [symmetric] prompt_def [symmetric]
    using no yes by blast
next
  fix ans tail
  assume "ToLower ans = ''yes'' \<or> ToLower ans = ''y''"
  then show "TrimSpace (ToLower (ReadString (ans @ nl # tail) nl)) = ToLower ans"
    by (rule answer_yes)
next
  show "TrimSpace (ToLower (ReadString [] nl)) = []"
    by (rule answer_empty)
next
  fix tail
  show "TrimSpace (ToLower (ReadString (nl # tail) nl)) = []"
    by (rule answer_empty)
qed


theorem handleDelete_confirmation_witness:
  "handleDelete threeStore (''no'' @ [nl]) base [''alpha''] =
     \<lparr>stdout = [''Are you sure you want to delete workspace '' @ quoted ''alpha'' @ ''? (yes/no): '',
                 ''Deletion cancelled'' @ [nl]],
      stderr = [], status = Returned, fsys = threeStore\<rparr> \<and>
   status (handleDelete threeStore ('' YeS '' @ [nl]) base [''alpha'']) = Returned \<and>
   map fst (fsys (handleDelete threeStore ('' YeS '' @ [nl]) base [''alpha''])) =
     map fst emptyStore @ map fst (workspaceAt ''beta'' [] []) @ map fst (workspaceAt ''gamma'' [] [])"
proof -
  have no: "TrimSpace (ToLower (ReadString (''no'' @ [nl]) nl)) \<noteq> ''yes'' \<and>
      TrimSpace (ToLower (ReadString (''no'' @ [nl]) nl)) \<noteq> ''y''"
    by (simp add: ReadString_def ToLower_def lowerChar_def str_defs)
  have yes: "TrimSpace (ToLower (ReadString ('' YeS '' @ [nl]) nl)) = ''yes'' \<or>
      TrimSpace (ToLower (ReadString ('' YeS '' @ [nl]) nl)) = ''y''"
    by (simp add: ReadString_def ToLower_def lowerChar_def str_defs)
  have rm: "RemoveAll threeStore (Join [base, ''alpha'']) =
      Inr (filter (\<lambda>(q, n). q \<noteq> base @ ''/alpha'' \<and> \<not> prefix (base @ ''/alpha/'') q) threeStore)"
    by (simp add: RemoveAll_def dirPrefix_def base_def str_defs suffix_to_prefix)
  have fl: "map fst (filter (\<lambda>(q, n). q \<noteq> base @ ''/alpha'' \<and> \<not> prefix (base @ ''/alpha/'') q) threeStore)
      = map fst emptyStore @ map fst (workspaceAt ''beta'' [] []) @ map fst (workspaceAt ''gamma'' [] [])"
    by (simp add: store_defs)
  note a = handleDelete_confirmation [of threeStore base "''alpha''" Dir "''no'' @ [nl]" "[]",
      THEN conjunct1, THEN mp, OF statAlpha, unfolded Let_def,
      THEN conjunct1, THEN mp, OF no, THEN conjunct1]
  note b = handleDelete_confirmation [of threeStore base "''alpha''" Dir "'' YeS '' @ [nl]" "[]",
      THEN conjunct1, THEN mp, OF statAlpha, unfolded Let_def,
      THEN conjunct2, THEN mp, OF yes, unfolded rm sum.case, THEN conjunct1]
  have c: "status (handleDelete threeStore ('' YeS '' @ [nl]) base [''alpha'']) = Returned"
    unfolding b by simp
  have d: "map fst (fsys (handleDelete threeStore ('' YeS '' @ [nl]) base [''alpha''])) =
     map fst emptyStore @ map fst (workspaceAt ''beta'' [] []) @ map fst (workspaceAt ''gamma'' [] [])"
    unfolding b using fl by simp
  show ?thesis
    by (rule conjI [OF a conjI [OF c d]])
qed

subsection \<open>The iterations in \<open>handleView\<close> and \<open>handleHistory\<close>\<close>

lemma viewLoop_filter:
  "i \<le> count \<Longrightarrow> count \<le> length lines \<Longrightarrow>
   viewLoop lines i count =
     map (\<lambda>l. ''  '' @ l @ [nl]) (filter (\<lambda>l. l \<noteq> []) (drop i (take count lines)))"
proof (induction lines i count rule: viewLoop.induct)
  case (1 lines i count)
  show ?case
  proof (cases "i < count")
    case True
    then have d: "drop i (take count lines) = lines ! i # drop (i + 1) (take count lines)"
      using 1(3) by (simp add: Cons_nth_drop_Suc [symmetric])
    show ?thesis
      using True 1 by (subst viewLoop.simps) (simp add: d)
  next
    case False
    then show ?thesis
      using 1(2) by (subst viewLoop.simps) simp
  qed
qed

lemma historyLoop_filter:
  "historyLoop i ls =
     map (\<lambda>(k, l). padLeft 3 (showNat (k + 1)) @ ''. '' @ l @ [nl])
       (filter (\<lambda>(k, l). l \<noteq> []) (enumerate i ls))"
  by (induction ls arbitrary: i) auto

subsection \<open>The slice of the last lines\<close>

lemma lastLines_nonneg:
  assumes "0 \<le> n" "n < 2 ^ 63" "int (length ls) < 2 ^ 63"
  shows "lastLines ls n = Some (drop (length ls - nat n) ls)"
proof -
  have "inInt64 (int (length ls) - n)"
    using assms by (simp add: inInt64_def)
  then have w: "wrap64 (int (length ls) - n) = int (length ls) - n"
    by (rule wrap64_id)
  show ?thesis
    using assms unfolding lastLines_def Let_def w
    by (auto simp: nat_diff_distrib')
qed

lemma lastLines_negative:
  assumes "n < 0" "int (length ls) - n < 2 ^ 63"
  shows "lastLines ls n = None"
proof -
  have "inInt64 (int (length ls) - n)"
    using assms by (simp add: inInt64_def)
  then have w: "wrap64 (int (length ls) - n) = int (length ls) - n"
    by (rule wrap64_id)
  show ?thesis
    using assms unfolding lastLines_def Let_def w by simp
qed

lemma lastLines_min:
  assumes "0 < length ls" "int (length ls) < 2 ^ 63"
  shows "lastLines ls (- (2 ^ 63)) = Some ls"
proof -
  have "wrap64 (int (length ls) - - (2 ^ 63)) = int (length ls) - 2 ^ 63"
    using assms by (simp add: wrap64_def)
  then show ?thesis
    using assms unfolding lastLines_def Let_def by simp
qed

subsection \<open>History\<close>

lemma Sscanf_d_range: "Sscanf_d s = Some v \<Longrightarrow> inInt64 v"
  by (auto simp: Sscanf_d_def Let_def split: option.splits list.splits if_splits)

lemma handleHistory_read:
  assumes "Stat fs (Join [b, name]) = Inr info"
    and "ReadFile fs (Join [Join [b, name], ''history.log'']) = Inr data"
  shows "handleHistory fs b (name # rest) =
    (let lines = (case rest of [] \<Rightarrow> 20
                  | arg # _ \<Rightarrow> (case Sscanf_d arg of None \<Rightarrow> 20 | Some k \<Rightarrow> k))
     in if data = [] then
          \<lparr>stdout = [''No command history for workspace '' @ quoted name @ [nl]],
           stderr = [], status = Returned, fsys = fs\<rparr>
        else
          (case lastLines (Split (TrimSpace data) nl) lines of
             None \<Rightarrow>
               \<lparr>stdout = [[nl] @ ''=== Command History for '' @ quoted name
                           @ '' (last '' @ showInt lines @ '' commands) ==='' @ [nl],
                           replicate 80 CHR ''-'' @ [nl]],
                stderr = [], status = Panic, fsys = fs\<rparr>
           | Some shown \<Rightarrow>
               \<lparr>stdout = [[nl] @ ''=== Command History for '' @ quoted name
                           @ '' (last '' @ showInt lines @ '' commands) ==='' @ [nl],
                           replicate 80 CHR ''-'' @ [nl]] @ historyLoop 0 shown @ [[nl]],
                stderr = [], status = Returned, fsys = fs\<rparr>))"
  using assms
  by (cases rest) (simp_all add: handleHistory_def Let_def del: Join.simps split: option.splits)

lemma replicate_2: "replicate 2 x = [x, x]"
  by (simp add: numeral_2_eq_2)

lemma readAlpha:
  "ReadFile threeStore (Join [Join [base, ''alpha''], ''history.log'']) = Inr (''ls'' @ [nl] @ ''pwd'' @ [nl])"
  by (simp add: store_defs os_defs str_defs)

lemma splitAlpha: "Split (TrimSpace (''ls'' @ [nl] @ ''pwd'' @ [nl])) nl = [''ls'', ''pwd'']"
  by (simp add: str_defs)

lemma loopAlpha: "historyLoop 0 [''ls'', ''pwd''] = [''  1. ls'' @ [nl], ''  2. pwd'' @ [nl]]"
  by (simp add: show_defs replicate_2)

lemma statBlank: "Stat blankStore (Join [base, ''blank'']) = Inr Dir"
  by (simp add: store_defs os_defs str_defs)

lemma readBlank:
  "ReadFile blankStore (Join [Join [base, ''blank''], ''history.log'']) = Inr (''ls'' @ [nl, nl, nl])"
  by (simp add: store_defs os_defs str_defs)

lemma splitBlank: "Split (TrimSpace (''ls'' @ [nl, nl, nl])) nl = [''ls'']"
  by (simp add: str_defs)

text \<open>
  C4, as stated, fails: \<open>handleHistory\<close> trims all the white space at both ends of the
  file, not one final newline. For the file \<open>ls\<close> followed by three newlines and the count
  1, the last line in the words of the claim is an empty one, while the program prints
  the line \<open>ls\<close>.
\<close>

theorem handleHistory_trim_counterexample:
  "claimedHistory (''ls'' @ [nl, nl, nl]) 1 = [[]] \<and>
   handleHistory blankStore base [''blank'', ''1''] =
     \<lparr>stdout = [[nl] @ ''=== Command History for '' @ quoted ''blank'' @ '' (last 1 commands) ==='' @ [nl],
                 replicate 80 CHR ''-'' @ [nl],
                 ''  1. ls'' @ [nl],
                 [nl]],
      stderr = [], status = Returned, fsys = blankStore\<rparr>"
proof -
  have c: "claimedHistory (''ls'' @ [nl, nl, nl]) 1 = [[]]"
    by (simp add: claimedHistory_def nl_def)
  have sc: "Sscanf_d ''1'' = Some 1"
    by (simp add: scan_defs str_defs)
  have ll: "lastLines [''ls''] 1 = Some [''ls'']"
    by (simp add: lastLines_def wrap64_def)
  have lp: "historyLoop 0 [''ls''] = [''  1. ls'' @ [nl]]"
    by (simp add: show_defs replicate_2)
  have s1: "showInt 1 = ''1''"
    by (simp add: show_defs replicate_2)
  have h: "handleHistory blankStore base [''blank'', ''1''] =
     \<lparr>stdout = [[nl] @ ''=== Command History for '' @ quoted ''blank'' @ '' (last 1 commands) ==='' @ [nl],
                 replicate 80 CHR ''-'' @ [nl],
                 ''  1. ls'' @ [nl],
                 [nl]],
      stderr = [], status = Returned, fsys = blankStore\<rparr>"
    unfolding handleHistory_read [OF statBlank readBlank] Let_def list.case sc option.case
      splitBlank ll lp s1
    by (simp add: nl_def)
  show ?thesis
    by (rule conjI [OF c h])
qed

text \<open>
  C4, amended. For an existing workspace whose history file can be read, with the count
  \<open>n\<close> taken from the second argument (20 when there is none, or when it does not scan as a
  number): an empty file gives the line \<open>No command history\<close>; otherwise the content is
  trimmed of all white space at both ends (so of every blank line there, leading or
  trailing) and cut at the newlines, and for \<open>n \<ge> 0\<close> the program prints the header and,
  in the original order and numbered by their position among the last \<open>n\<close> lines, the
  non-empty lines among these; the last \<open>n\<close> lines are all the lines when there are at most
  \<open>n\<close>.
\<close>

theorem handleHistory_lines:
  "Stat fs (Join [b, name]) = Inr info \<and>
   ReadFile fs (Join [Join [b, name], ''history.log'']) = Inr data \<longrightarrow>
     (let n = (case rest of [] \<Rightarrow> 20
               | arg # _ \<Rightarrow> (case Sscanf_d arg of None \<Rightarrow> 20 | Some k \<Rightarrow> k));
          ls = Split (TrimSpace data) nl;
          r = handleHistory fs b (name # rest)
      in (rest = [] \<longrightarrow> n = 20) \<and>
         (data = [] \<longrightarrow>
            r = \<lparr>stdout = [''No command history for workspace '' @ quoted name @ [nl]],
                 stderr = [], status = Returned, fsys = fs\<rparr>) \<and>
         (data \<noteq> [] \<and> 0 \<le> n \<and> int (length ls) < 2 ^ 63 \<longrightarrow>
            r = \<lparr>stdout = [[nl] @ ''=== Command History for '' @ quoted name
                             @ '' (last '' @ showInt n @ '' commands) ==='' @ [nl],
                             replicate 80 CHR ''-'' @ [nl]]
                            @ map (\<lambda>(k, l). padLeft 3 (showNat (k + 1)) @ ''. '' @ l @ [nl])
                                (filter (\<lambda>(k, l). l \<noteq> [])
                                   (enumerate 0 (drop (length ls - nat n) ls)))
                            @ [[nl]],
                 stderr = [], status = Returned, fsys = fs\<rparr> \<and>
            (length ls \<le> nat n \<longrightarrow> drop (length ls - nat n) ls = ls) \<and>
            length (drop (length ls - nat n) ls) = min (nat n) (length ls)))"
proof (intro impI)
  assume a: "Stat fs (Join [b, name]) = Inr info \<and>
    ReadFile fs (Join [Join [b, name], ''history.log'']) = Inr data"
  define n where "n = (case rest of [] \<Rightarrow> 20
               | arg # _ \<Rightarrow> (case Sscanf_d arg of None \<Rightarrow> 20 | Some k \<Rightarrow> k))"
  define ls where "ls = Split (TrimSpace data) nl"
  define r where "r = handleHistory fs b (name # rest)"
  note rd = handleHistory_read [OF conjunct1 [OF a] conjunct2 [OF a], of rest,
      unfolded Let_def n_def [symmetric] ls_def [symmetric] r_def [symmetric]]
  have "inInt64 n"
    unfolding n_def
    by (auto simp: inInt64_def split: list.splits option.splits dest: Sscanf_d_range)
  then have up: "n < 2 ^ 63"
    by (simp add: inInt64_def)
  have def20: "rest = [] \<longrightarrow> n = 20"
    by (simp add: n_def)
  have empty: "r = \<lparr>stdout = [''No command history for workspace '' @ quoted name @ [nl]],
                 stderr = [], status = Returned, fsys = fs\<rparr>" if "data = []"
    using rd that by simp
  have shown: "r = \<lparr>stdout = [[nl] @ ''=== Command History for '' @ quoted name
                             @ '' (last '' @ showInt n @ '' commands) ==='' @ [nl],
                             replicate 80 CHR ''-'' @ [nl]]
                            @ map (\<lambda>(k, l). padLeft 3 (showNat (k + 1)) @ ''. '' @ l @ [nl])
                                (filter (\<lambda>(k, l). l \<noteq> [])
                                   (enumerate 0 (drop (length ls - nat n) ls)))
                            @ [[nl]],
                 stderr = [], status = Returned, fsys = fs\<rparr>"
    if "data \<noteq> [] \<and> 0 \<le> n \<and> int (length ls) < 2 ^ 63"
  proof -
    have "lastLines ls n = Some (drop (length ls - nat n) ls)"
      using that up by (simp add: lastLines_nonneg)
    then show ?thesis
      using rd that by (simp add: historyLoop_filter)
  qed
  have "(rest = [] \<longrightarrow> n = 20) \<and>
         (data = [] \<longrightarrow>
            r = \<lparr>stdout = [''No command history for workspace '' @ quoted name @ [nl]],
                 stderr = [], status = Returned, fsys = fs\<rparr>) \<and>
         (data \<noteq> [] \<and> 0 \<le> n \<and> int (length ls) < 2 ^ 63 \<longrightarrow>
            r = \<lparr>stdout = [[nl] @ ''=== Command History for '' @ quoted name
                             @ '' (last '' @ showInt n @ '' commands) ==='' @ [nl],
                             replicate 80 CHR ''-'' @ [nl]]
                            @ map (\<lambda>(k, l). padLeft 3 (showNat (k + 1)) @ ''. '' @ l @ [nl])
                                (filter (\<lambda>(k, l). l \<noteq> [])
                                   (enumerate 0 (drop (length ls - nat n) ls)))
                            @ [[nl]],
                 stderr = [], status = Returned, fsys = fs\<rparr> \<and>
            (length ls \<le> nat n \<longrightarrow> drop (length ls - nat n) ls = ls) \<and>
            length (drop (length ls - nat n) ls) = min (nat n) (length ls))"
    using def20 empty shown by (auto simp: min_def)
  then show "let n = (case rest of [] \<Rightarrow> 20
               | arg # _ \<Rightarrow> (case Sscanf_d arg of None \<Rightarrow> 20 | Some k \<Rightarrow> k));
          ls = Split (TrimSpace data) nl;
          r = handleHistory fs b (name # rest)
      in (rest = [] \<longrightarrow> n = 20) \<and>
         (data = [] \<longrightarrow>
            r = \<lparr>stdout = [''No command history for workspace '' @ quoted name @ [nl]],
                 stderr = [], status = Returned, fsys = fs\<rparr>) \<and>
         (data \<noteq> [] \<and> 0 \<le> n \<and> int (length ls) < 2 ^ 63 \<longrightarrow>
            r = \<lparr>stdout = [[nl] @ ''=== Command History for '' @ quoted name
                             @ '' (last '' @ showInt n @ '' commands) ==='' @ [nl],
                             replicate 80 CHR ''-'' @ [nl]]
                            @ map (\<lambda>(k, l). padLeft 3 (showNat (k + 1)) @ ''. '' @ l @ [nl])
                                (filter (\<lambda>(k, l). l \<noteq> [])
                                   (enumerate 0 (drop (length ls - nat n) ls)))
                            @ [[nl]],
                 stderr = [], status = Returned, fsys = fs\<rparr> \<and>
            (length ls \<le> nat n \<longrightarrow> drop (length ls - nat n) ls = ls) \<and>
            length (drop (length ls - nat n) ls) = min (nat n) (length ls))"
    unfolding Let_def n_def ls_def r_def .
qed

theorem handleHistory_lines_witness:
  "handleHistory threeStore base [''alpha''] =
     \<lparr>stdout = [[nl] @ ''=== Command History for '' @ quoted ''alpha'' @ '' (last 20 commands) ==='' @ [nl],
                 replicate 80 CHR ''-'' @ [nl],
                 ''  1. ls'' @ [nl],
                 ''  2. pwd'' @ [nl],
                 [nl]],
      stderr = [], status = Returned, fsys = threeStore\<rparr> \<and>
   handleHistory threeStore base [''alpha'', ''1_000''] =
     \<lparr>stdout = [[nl] @ ''=== Command History for '' @ quoted ''alpha'' @ '' (last 1 commands) ==='' @ [nl],
                 replicate 80 CHR ''-'' @ [nl],
                 ''  1. pwd'' @ [nl],
                 [nl]],
      stderr = [], status = Returned, fsys = threeStore\<rparr>"
proof -
  have cond: "''ls'' @ [nl] @ ''pwd'' @ [nl] \<noteq> [] \<and> (0::int) \<le> 20 \<and> int (length [''ls'', ''pwd'']) < 2 ^ 63"
    by simp
  have en: "map (\<lambda>(k, l). padLeft 3 (showNat (k + 1)) @ ''. '' @ l @ [nl])
       (filter (\<lambda>(k, l). l \<noteq> []) (enumerate 0 (drop (length [''ls'', ''pwd''] - nat 20) [''ls'', ''pwd''])))
     = [''  1. ls'' @ [nl], ''  2. pwd'' @ [nl]]"
    by (simp add: show_defs replicate_2)
  have s20: "showInt 20 = ''20''"
    by (simp add: show_defs replicate_2)
  note t = handleHistory_lines [of threeStore base "''alpha''" Dir "''ls'' @ [nl] @ ''pwd'' @ [nl]" "[]",
      THEN mp, OF conjI [OF statAlpha readAlpha], unfolded Let_def list.case splitAlpha,
      THEN conjunct2, THEN conjunct2, THEN mp, OF cond, THEN conjunct1, unfolded en s20]
  have first: "handleHistory threeStore base [''alpha''] =
     \<lparr>stdout = [[nl] @ ''=== Command History for '' @ quoted ''alpha'' @ '' (last 20 commands) ==='' @ [nl],
                 replicate 80 CHR ''-'' @ [nl],
                 ''  1. ls'' @ [nl],
                 ''  2. pwd'' @ [nl],
                 [nl]],
      stderr = [], status = Returned, fsys = threeStore\<rparr>"
    unfolding t by (simp add: nl_def)
  have sc: "Sscanf_d ''1_000'' = Some 1"
    by (simp add: scan_defs str_defs)
  have cond1: "''ls'' @ [nl] @ ''pwd'' @ [nl] \<noteq> [] \<and> (0::int) \<le> 1 \<and> int (length [''ls'', ''pwd'']) < 2 ^ 63"
    by simp
  have en1: "map (\<lambda>(k, l). padLeft 3 (showNat (k + 1)) @ ''. '' @ l @ [nl])
       (filter (\<lambda>(k, l). l \<noteq> []) (enumerate 0 (drop (length [''ls'', ''pwd''] - nat 1) [''ls'', ''pwd''])))
     = [''  1. pwd'' @ [nl]]"
    by (simp add: show_defs replicate_2)
  have s1: "showInt 1 = ''1''"
    by (simp add: show_defs)
  note u = handleHistory_lines [of threeStore base "''alpha''" Dir "''ls'' @ [nl] @ ''pwd'' @ [nl]" "[''1_000'']",
      THEN mp, OF conjI [OF statAlpha readAlpha], unfolded Let_def list.case sc option.case splitAlpha,
      THEN conjunct2, THEN conjunct2, THEN mp, OF cond1, THEN conjunct1, unfolded en1 s1]
  have second: "handleHistory threeStore base [''alpha'', ''1_000''] =
     \<lparr>stdout = [[nl] @ ''=== Command History for '' @ quoted ''alpha'' @ '' (last 1 commands) ==='' @ [nl],
                 replicate 80 CHR ''-'' @ [nl],
                 ''  1. pwd'' @ [nl],
                 [nl]],
      stderr = [], status = Returned, fsys = threeStore\<rparr>"
    unfolding u by (simp add: nl_def)
  show ?thesis
    by (rule conjI [OF first second])
qed

text \<open>
  C5, as stated, fails for the counts at the lower end of \<open>int\<close>: for
  \<open>-9223372036854775808\<close> the subtraction \<open>len(historyLines) - lines\<close> wraps around to a
  negative number, \<open>start\<close> is reset to 0 and the whole history is printed, without a panic.
\<close>

theorem handleHistory_min_counterexample:
  "Sscanf_d ''-9223372036854775808'' = Some (- 9223372036854775808) \<and>
   handleHistory threeStore base [''alpha'', ''-9223372036854775808''] =
     \<lparr>stdout = [[nl] @ ''=== Command History for '' @ quoted ''alpha''
                   @ '' (last -9223372036854775808 commands) ==='' @ [nl],
                 replicate 80 CHR ''-'' @ [nl],
                 ''  1. ls'' @ [nl],
                 ''  2. pwd'' @ [nl],
                 [nl]],
      stderr = [], status = Returned, fsys = threeStore\<rparr>"
proof -
  have sc: "Sscanf_d ''-9223372036854775808'' = Some (- 9223372036854775808)"
    by (simp add: scan_defs str_defs)
  have "lastLines [''ls'', ''pwd''] (- (2 ^ 63)) = Some [''ls'', ''pwd'']"
    by (rule lastLines_min) simp_all
  then have ll: "lastLines [''ls'', ''pwd''] (- 9223372036854775808) = Some [''ls'', ''pwd'']"
    by simp
  have si: "showInt (- 9223372036854775808) = ''-9223372036854775808''"
    by (simp add: show_defs replicate_2)
  have h: "handleHistory threeStore base [''alpha'', ''-9223372036854775808''] =
     \<lparr>stdout = [[nl] @ ''=== Command History for '' @ quoted ''alpha''
                   @ '' (last -9223372036854775808 commands) ==='' @ [nl],
                 replicate 80 CHR ''-'' @ [nl],
                 ''  1. ls'' @ [nl],
                 ''  2. pwd'' @ [nl],
                 [nl]],
      stderr = [], status = Returned, fsys = threeStore\<rparr>"
    unfolding handleHistory_read [OF statAlpha readAlpha] Let_def list.case sc option.case
      splitAlpha ll loopAlpha si
    by (simp add: nl_def)
  show ?thesis
    by (rule conjI [OF sc h])
qed

text \<open>
  C5, amended. For an existing workspace whose history file is not empty and a negative
  count \<open>n\<close> scanned from the second argument (its sign and the digits that follow, up to
  the first other character), for which \<open>len(historyLines) - n\<close> does not leave the range of \<open>int\<close>, the
  lower bound of the slice exceeds the number of lines and the slice expression panics,
  after the two header lines were printed.
\<close>

theorem handleHistory_negative:
  "Stat fs (Join [b, name]) = Inr info \<and>
   ReadFile fs (Join [Join [b, name], ''history.log'']) = Inr data \<and> data \<noteq> [] \<and>
   Sscanf_d arg = Some n \<and> n < 0 \<and>
   int (length (Split (TrimSpace data) nl)) - n < 2 ^ 63 \<longrightarrow>
     int (length (Split (TrimSpace data) nl)) - n > int (length (Split (TrimSpace data) nl)) \<and>
     lastLines (Split (TrimSpace data) nl) n = None \<and>
     handleHistory fs b (name # arg # rest) =
       \<lparr>stdout = [[nl] @ ''=== Command History for '' @ quoted name
                   @ '' (last '' @ showInt n @ '' commands) ==='' @ [nl],
                   replicate 80 CHR ''-'' @ [nl]],
        stderr = [], status = Panic, fsys = fs\<rparr>"
proof (intro impI)
  assume a: "Stat fs (Join [b, name]) = Inr info \<and>
   ReadFile fs (Join [Join [b, name], ''history.log'']) = Inr data \<and> data \<noteq> [] \<and>
   Sscanf_d arg = Some n \<and> n < 0 \<and>
   int (length (Split (TrimSpace data) nl)) - n < 2 ^ 63"
  then have st: "Stat fs (Join [b, name]) = Inr info"
    and rf: "ReadFile fs (Join [Join [b, name], ''history.log'']) = Inr data"
    and ne: "data \<noteq> []" and sc: "Sscanf_d arg = Some n" and neg: "n < 0"
    and fit: "int (length (Split (TrimSpace data) nl)) - n < 2 ^ 63"
    by blast+
  have none: "lastLines (Split (TrimSpace data) nl) n = None"
    by (rule lastLines_negative [OF neg fit])
  show "int (length (Split (TrimSpace data) nl)) - n > int (length (Split (TrimSpace data) nl)) \<and>
     lastLines (Split (TrimSpace data) nl) n = None \<and>
     handleHistory fs b (name # arg # rest) =
       \<lparr>stdout = [[nl] @ ''=== Command History for '' @ quoted name
                   @ '' (last '' @ showInt n @ '' commands) ==='' @ [nl],
                   replicate 80 CHR ''-'' @ [nl]],
        stderr = [], status = Panic, fsys = fs\<rparr>"
    using neg none ne sc handleHistory_read [OF st rf, of "arg # rest"]
    by (simp add: Let_def)
qed

theorem handleHistory_negative_witness:
  "handleHistory threeStore base [''alpha'', ''-1''] =
     \<lparr>stdout = [[nl] @ ''=== Command History for '' @ quoted ''alpha'' @ '' (last -1 commands) ==='' @ [nl],
                 replicate 80 CHR ''-'' @ [nl]],
      stderr = [], status = Panic, fsys = threeStore\<rparr> \<and>
   handleHistory threeStore base [''alpha'', ''-1_0''] =
     \<lparr>stdout = [[nl] @ ''=== Command History for '' @ quoted ''alpha'' @ '' (last -1 commands) ==='' @ [nl],
                 replicate 80 CHR ''-'' @ [nl]],
      stderr = [], status = Panic, fsys = threeStore\<rparr>"
proof -
  have sc: "Sscanf_d ''-1'' = Some (- 1)"
    by (simp add: scan_defs str_defs)
  have sc': "Sscanf_d ''-1_0'' = Some (- 1)"
    by (simp add: scan_defs str_defs)
  have cond: "''ls'' @ [nl] @ ''pwd'' @ [nl] \<noteq> [] \<and> Sscanf_d ''-1'' = Some (- 1) \<and> (- 1 :: int) < 0 \<and>
      int (length (Split (TrimSpace (''ls'' @ [nl] @ ''pwd'' @ [nl])) nl)) - (- 1) < 2 ^ 63"
    unfolding splitAlpha using sc by simp
  have cond': "''ls'' @ [nl] @ ''pwd'' @ [nl] \<noteq> [] \<and> Sscanf_d ''-1_0'' = Some (- 1) \<and> (- 1 :: int) < 0 \<and>
      int (length (Split (TrimSpace (''ls'' @ [nl] @ ''pwd'' @ [nl])) nl)) - (- 1) < 2 ^ 63"
    unfolding splitAlpha using sc' by simp
  have si: "showInt (- 1) = ''-1''"
    by (simp add: show_defs replicate_2)
  note t = handleHistory_negative [of threeStore base "''alpha''" Dir "''ls'' @ [nl] @ ''pwd'' @ [nl]"
      "''-1''" "- 1" "[]", THEN mp, OF conjI [OF statAlpha conjI [OF readAlpha cond]],
      THEN conjunct2, THEN conjunct2, unfolded si]
  note u = handleHistory_negative [of threeStore base "''alpha''" Dir "''ls'' @ [nl] @ ''pwd'' @ [nl]"
      "''-1_0''" "- 1" "[]", THEN mp, OF conjI [OF statAlpha conjI [OF readAlpha cond']],
      THEN conjunct2, THEN conjunct2, unfolded si]
  have first: "handleHistory threeStore base [''alpha'', ''-1''] =
     \<lparr>stdout = [[nl] @ ''=== Command History for '' @ quoted ''alpha'' @ '' (last -1 commands) ==='' @ [nl],
                 replicate 80 CHR ''-'' @ [nl]],
      stderr = [], status = Panic, fsys = threeStore\<rparr>"
    unfolding t by (simp add: nl_def)
  have second: "handleHistory threeStore base [''alpha'', ''-1_0''] =
     \<lparr>stdout = [[nl] @ ''=== Command History for '' @ quoted ''alpha'' @ '' (last -1 commands) ==='' @ [nl],
                 replicate 80 CHR ''-'' @ [nl]],
      stderr = [], status = Panic, fsys = threeStore\<rparr>"
    unfolding u by (simp add: nl_def)
  show ?thesis
    by (rule conjI [OF first second])
qed

subsection \<open>Viewing a workspace\<close>

lemma length_filter_eq: "length (filter P xs) = length xs \<longleftrightarrow> (\<forall>x \<in> set xs. P x)"
proof (induction xs)
  case Nil
  show ?case by simp
next
  case (Cons x xs)
  have le: "length (filter P xs) \<le> length xs"
    by simp
  show ?case
  proof (cases "P x")
    case True
    then show ?thesis
      using Cons by simp
  next
    case False
    have "length (filter P xs) \<noteq> Suc (length xs)"
      using le by linarith
    then show ?thesis
      using False by simp
  qed
qed

lemma recent_window:
  assumes "ls \<noteq> []"
  shows "viewLoop ls (nat (if int (length ls) - 5 < 0 then 0 else int (length ls) - 5)) (length ls) =
    map (\<lambda>l. ''  '' @ l @ [nl]) (filter (\<lambda>l. l \<noteq> []) (drop (length ls - 5) ls))"
proof -
  have s: "nat (if int (length ls) - 5 < 0 then 0 else int (length ls) - 5) = length ls - 5"
    by auto
  show ?thesis
    unfolding s by (simp add: viewLoop_filter)
qed

lemma handleView_read:
  assumes "Stat fs (Join [b, name]) = Inr info"
    and "ReadFile fs (Join [Join [b, name], ''history.log'']) = Inr data"
  shows "handleView fs b (name # rest) =
    \<lparr>stdout =
       [[nl] @ ''=== Workspace: '' @ name @ '' ==='' @ [nl],
        ''Path: '' @ Join [b, name] @ [nl],
        ''Created: '' @ index (readConfig fs (Join [Join [b, name], configFile])) ''created'' @ [nl],
        ''Commands Logged: '' @ index (readConfig fs (Join [Join [b, name], configFile])) ''commands'' @ [nl]]
       @ (if hd (Split (TrimSpace data) nl) \<noteq> [] then
            ([nl] @ ''Recent Commands (last 5):'' @ [nl])
            # map (\<lambda>l. ''  '' @ l @ [nl])
                (filter (\<lambda>l. l \<noteq> [])
                   (drop (length (Split (TrimSpace data) nl) - 5) (Split (TrimSpace data) nl)))
          else [])
       @ [[nl]],
     stderr = [], status = Returned, fsys = fs\<rparr>"
proof -
  define ls where "ls = Split (TrimSpace data) nl"
  have ne: "ls \<noteq> []"
    by (simp add: ls_def Split_nonempty)
  then have h: "ls ! 0 = hd ls" "0 < length ls"
    by (simp_all add: hd_conv_nth)
  show ?thesis
    using assms h recent_window [OF ne]
    unfolding ls_def [symmetric]
    by (simp add: handleView_def Let_def ls_def [symmetric] del: Join.simps)
qed

lemma statGap: "Stat gapStore (Join [base, ''gap'']) = Inr Dir"
  by (simp add: store_defs os_defs str_defs)

lemma readGap:
  "ReadFile gapStore (Join [Join [base, ''gap''], ''history.log'']) =
     Inr (''a'' @ [nl] @ ''b'' @ [nl] @ ''c'' @ [nl] @ ''d'' @ [nl] @ [nl] @ ''e'' @ [nl])"
  by (simp add: store_defs os_defs str_defs)

lemma splitGap:
  "Split (TrimSpace (''a'' @ [nl] @ ''b'' @ [nl] @ ''c'' @ [nl] @ ''d'' @ [nl] @ [nl] @ ''e'' @ [nl])) nl
     = [''a'', ''b'', ''c'', ''d'', [], ''e'']"
  by (simp add: str_defs)

lemma configGap:
  "index (readConfig gapStore (Join [Join [base, ''gap''], configFile])) ''created'' = []"
  "index (readConfig gapStore (Join [Join [base, ''gap''], configFile])) ''commands'' = []"
  by (simp_all add: store_defs os_defs str_defs readConfig_def)

lemma configAlpha:
  "index (readConfig threeStore (Join [Join [base, ''alpha''], configFile])) ''created''
     = ''2024-01-01T00:00:00Z''"
  "index (readConfig threeStore (Join [Join [base, ''alpha''], configFile])) ''commands'' = ''2''"
  by (simp_all add: store_defs os_defs str_defs readConfig_def)

lemma pathGap: "Join [base, ''gap''] = ''/home/u/.bashlog-workspaces/gap''"
  by (simp add: base_def str_defs)

lemma pathAlpha: "Join [base, ''alpha''] = ''/home/u/.bashlog-workspaces/alpha''"
  by (simp add: base_def str_defs)

text \<open>
  C3, as stated, fails: \<open>handleView\<close> takes the last five lines and then leaves out the
  empty ones. A history file with the five non-empty lines \<open>a\<close>, \<open>b\<close>, \<open>c\<close>, \<open>d\<close>, \<open>e\<close> and
  an empty line before the last one (its pieces, with the artifact of the final newline,
  are given first) is shown as the four lines \<open>b\<close>, \<open>c\<close>, \<open>d\<close>, \<open>e\<close>.
\<close>

theorem handleView_gap_counterexample:
  "Split (''a'' @ [nl] @ ''b'' @ [nl] @ ''c'' @ [nl] @ ''d'' @ [nl] @ [nl] @ ''e'' @ [nl]) nl
     = [''a'', ''b'', ''c'', ''d'', [], ''e'', []] \<and>
   handleView gapStore base [''gap''] =
     \<lparr>stdout = [[nl] @ ''=== Workspace: gap ==='' @ [nl],
                 ''Path: /home/u/.bashlog-workspaces/gap'' @ [nl],
                 ''Created: '' @ [nl],
                 ''Commands Logged: '' @ [nl],
                 [nl] @ ''Recent Commands (last 5):'' @ [nl],
                 ''  b'' @ [nl], ''  c'' @ [nl], ''  d'' @ [nl], ''  e'' @ [nl],
                 [nl]],
      stderr = [], status = Returned, fsys = gapStore\<rparr>"
proof -
  have n: "Split (''a'' @ [nl] @ ''b'' @ [nl] @ ''c'' @ [nl] @ ''d'' @ [nl] @ [nl] @ ''e'' @ [nl]) nl
     = [''a'', ''b'', ''c'', ''d'', [], ''e'', []]"
    by (simp add: nl_def)
  have w: "filter (\<lambda>l. l \<noteq> []) (drop (length [''a'', ''b'', ''c'', ''d'', [], ''e''] - 5)
      [''a'', ''b'', ''c'', ''d'', [], ''e'']) = [''b'', ''c'', ''d'', ''e'']"
    by simp
  have h: "handleView gapStore base [''gap''] =
     \<lparr>stdout = [[nl] @ ''=== Workspace: gap ==='' @ [nl],
                 ''Path: /home/u/.bashlog-workspaces/gap'' @ [nl],
                 ''Created: '' @ [nl],
                 ''Commands Logged: '' @ [nl],
                 [nl] @ ''Recent Commands (last 5):'' @ [nl],
                 ''  b'' @ [nl], ''  c'' @ [nl], ''  d'' @ [nl], ''  e'' @ [nl],
                 [nl]],
      stderr = [], status = Returned, fsys = gapStore\<rparr>"
    unfolding handleView_read [OF statGap readGap] splitGap configGap w
    unfolding pathGap
    by simp
  show ?thesis
    by (rule conjI [OF n h])
qed

text \<open>
  C3, amended. For an existing workspace whose history file can be read, \<open>handleView\<close>
  prints the name, the path and the two fields of the configuration and, unless the
  trimmed history is empty, the non-empty lines among the last five lines of the trimmed
  history, in their original order. So at most five lines are shown, and exactly five are
  shown if and only if the history has at least five lines and none of its last five lines
  is empty.
\<close>

theorem handleView_recent:
  "Stat fs (Join [b, name]) = Inr info \<and>
   ReadFile fs (Join [Join [b, name], ''history.log'']) = Inr data \<longrightarrow>
     (let ls = Split (TrimSpace data) nl;
          window = drop (length ls - 5) ls;
          shown = filter (\<lambda>l. l \<noteq> []) window;
          config = readConfig fs (Join [Join [b, name], configFile])
      in handleView fs b (name # rest) =
           \<lparr>stdout =
              [[nl] @ ''=== Workspace: '' @ name @ '' ==='' @ [nl],
               ''Path: '' @ Join [b, name] @ [nl],
               ''Created: '' @ index config ''created'' @ [nl],
               ''Commands Logged: '' @ index config ''commands'' @ [nl]]
              @ (if hd ls \<noteq> [] then
                   ([nl] @ ''Recent Commands (last 5):'' @ [nl])
                   # map (\<lambda>l. ''  '' @ l @ [nl]) shown
                 else [])
              @ [[nl]],
            stderr = [], status = Returned, fsys = fs\<rparr> \<and>
         length shown \<le> 5 \<and>
         subseq shown ls \<and>
         (length shown = 5 \<longleftrightarrow> 5 \<le> length ls \<and> (\<forall>l \<in> set window. l \<noteq> [])))"
proof (intro impI)
  assume a: "Stat fs (Join [b, name]) = Inr info \<and>
    ReadFile fs (Join [Join [b, name], ''history.log'']) = Inr data"
  define ls where "ls = Split (TrimSpace data) nl"
  define window where "window = drop (length ls - 5) ls"
  define shown where "shown = filter (\<lambda>l. l \<noteq> []) window"
  note rd = handleView_read [OF conjunct1 [OF a] conjunct2 [OF a], of rest,
      unfolded ls_def [symmetric] window_def [symmetric] shown_def [symmetric]]
  have lw: "length window = min 5 (length ls)"
    by (auto simp: window_def)
  have le: "length shown \<le> length window"
    by (simp add: shown_def)
  then have l5: "length shown \<le> 5"
    using lw by simp
  have "subseq window ls"
    unfolding window_def by (rule suffix_imp_subseq [OF suffix_drop])
  moreover have "subseq shown window"
    by (simp add: shown_def)
  ultimately have sub: "subseq shown ls"
    by (rule subseq_order.trans [rotated])
  have full: "length shown = length window \<longleftrightarrow> (\<forall>l \<in> set window. l \<noteq> [])"
    unfolding shown_def by (rule length_filter_eq)
  have five: "length shown = 5 \<longleftrightarrow> 5 \<le> length ls \<and> (\<forall>l \<in> set window. l \<noteq> [])"
    using full le lw by (auto simp: min_def split: if_splits)
  show "let ls = Split (TrimSpace data) nl;
          window = drop (length ls - 5) ls;
          shown = filter (\<lambda>l. l \<noteq> []) window;
          config = readConfig fs (Join [Join [b, name], configFile])
      in handleView fs b (name # rest) =
           \<lparr>stdout =
              [[nl] @ ''=== Workspace: '' @ name @ '' ==='' @ [nl],
               ''Path: '' @ Join [b, name] @ [nl],
               ''Created: '' @ index config ''created'' @ [nl],
               ''Commands Logged: '' @ index config ''commands'' @ [nl]]
              @ (if hd ls \<noteq> [] then
                   ([nl] @ ''Recent Commands (last 5):'' @ [nl])
                   # map (\<lambda>l. ''  '' @ l @ [nl]) shown
                 else [])
              @ [[nl]],
            stderr = [], status = Returned, fsys = fs\<rparr> \<and>
         length shown \<le> 5 \<and>
         subseq shown ls \<and>
         (length shown = 5 \<longleftrightarrow> 5 \<le> length ls \<and> (\<forall>l \<in> set window. l \<noteq> []))"
    unfolding Let_def ls_def [symmetric] window_def [symmetric] shown_def [symmetric]
    by (intro conjI rd l5 sub five)
qed

theorem handleView_recent_witness:
  "handleView threeStore base [''alpha''] =
     \<lparr>stdout = [[nl] @ ''=== Workspace: alpha ==='' @ [nl],
                 ''Path: /home/u/.bashlog-workspaces/alpha'' @ [nl],
                 ''Created: 2024-01-01T00:00:00Z'' @ [nl],
                 ''Commands Logged: 2'' @ [nl],
                 [nl] @ ''Recent Commands (last 5):'' @ [nl],
                 ''  ls'' @ [nl], ''  pwd'' @ [nl],
                 [nl]],
      stderr = [], status = Returned, fsys = threeStore\<rparr>"
proof -
  have w: "filter (\<lambda>l. l \<noteq> []) (drop (length [''ls'', ''pwd''] - 5) [''ls'', ''pwd'']) = [''ls'', ''pwd'']"
    by simp
  note t = handleView_recent [of threeStore base "''alpha''" Dir "''ls'' @ [nl] @ ''pwd'' @ [nl]" "[]",
      THEN mp, OF conjI [OF statAlpha readAlpha], unfolded Let_def splitAlpha configAlpha w,
      unfolded pathAlpha, THEN conjunct1]
  show ?thesis
    unfolding t by simp
qed

end
